theory Spec2Isabelle
  imports Main
begin

section \<open>Data model\<close>

text \<open>
  A JWKS key as the validator sees it: \<open>key.KeyType()\<close>, \<open>key.Algorithm()\<close> and
  \<open>key.KeyID()\<close> are strings (empty when the JWKS entry does not declare them); the key
  material is opaque and stands here as a number.
\<close>

record jwk_key =
  KeyType :: string
  Algorithm :: string
  KeyID :: string
  material :: nat

text \<open>
  Claim values (\<open>interface{}\<close> in \<open>map[string]interface{}\<close>): scalars, slices and
  maps. A map is kept as the list of its entries.
\<close>

datatype claim_value =
    VNull
  | VString string
  | VNumber int
  | VBool bool
  | VList "claim_value list"
  | VMap "(string \<times> claim_value) list"

text \<open>
  The parsed token (\<open>jwt.Token\<close>): \<open>Expiration()\<close> in nanoseconds since the epoch,
  \<open>Issuer()\<close> and \<open>Audience()\<close>; the rest of the token is opaque and stands here as a
  number.
\<close>

record token =
  expiration :: int
  tokenIssuer :: string
  audience :: "string list"
  payload :: nat

text \<open>The protected headers of a signature: \<open>KeyID()\<close> and \<open>Type()\<close>, empty when unset.\<close>

record headers =
  hdrKeyID :: string
  hdrType :: string

text \<open>
  Errors are values. \<open>errSignatureVerification\<close> is the package's sentinel;
  \<open>LibError msg\<close> is an error made by a library or by the key manager, with its message;
  the other constructors are the \<open>fmt.Errorf\<close> sites of the source, with the wrapped
  error as an argument where the format has \<open>%w\<close>.
\<close>

datatype error =
    errSignatureVerification
  | LibError string
  | IssuerIsEmpty
  | FallbackSignatureAlgorithmNotAccepted error
  | UnableToLoadJwks error
  | UnableToFetchJwksUri string error
  | UnableToInitializeKeyHandler error
  | JwksUriIsEmpty
  | TokenTypeRequired string
  | NoKeyIDInHeader
  | NoTypeInHeader
  | UnableToParseTokenString error
  | MoreThanOneSignature
  | UnableToGetPublicKey error
  | UnableToGetSignatureAlgorithm string string string
  | TokenHasExpired int
  | RequiredIssuerNotFound string string
  | RequiredAudienceNotFound string "string list"
  | UnableToGetTokenClaims error
  | UnableToValidateRequiredClaims error
  | TokenDoesNotHaveTheClaim string
  | ClaimNotValid string error
  | NilKeyHandlerPanic

text \<open>
  \<open>errors.Is\<close>: the target is the error or is somewhere down its chain of wrapped
  errors (\<open>%w\<close>).
\<close>

fun errors_Is :: "error \<Rightarrow> error \<Rightarrow> bool" where
  "errors_Is (FallbackSignatureAlgorithmNotAccepted e) t =
     (t = FallbackSignatureAlgorithmNotAccepted e \<or> errors_Is e t)"
| "errors_Is (UnableToLoadJwks e) t = (t = UnableToLoadJwks e \<or> errors_Is e t)"
| "errors_Is (UnableToFetchJwksUri u e) t = (t = UnableToFetchJwksUri u e \<or> errors_Is e t)"
| "errors_Is (UnableToInitializeKeyHandler e) t =
     (t = UnableToInitializeKeyHandler e \<or> errors_Is e t)"
| "errors_Is (UnableToParseTokenString e) t = (t = UnableToParseTokenString e \<or> errors_Is e t)"
| "errors_Is (UnableToGetPublicKey e) t = (t = UnableToGetPublicKey e \<or> errors_Is e t)"
| "errors_Is (UnableToGetTokenClaims e) t = (t = UnableToGetTokenClaims e \<or> errors_Is e t)"
| "errors_Is (UnableToValidateRequiredClaims e) t =
     (t = UnableToValidateRequiredClaims e \<or> errors_Is e t)"
| "errors_Is (ClaimNotValid k e) t = (t = ClaimNotValid k e \<or> errors_Is e t)"
| "errors_Is e t = (t = e)"

text \<open>\<open>strings.Contains\<close>: \<open>sub\<close> occurs in \<open>s\<close> as a contiguous block.\<close>

fun strings_HasPrefix :: "string \<Rightarrow> string \<Rightarrow> bool" where
  "strings_HasPrefix s [] = True"
| "strings_HasPrefix [] (c # cs) = False"
| "strings_HasPrefix (d # ds) (c # cs) = (d = c \<and> strings_HasPrefix ds cs)"

fun strings_Contains :: "string \<Rightarrow> string \<Rightarrow> bool" where
  "strings_Contains [] sub = strings_HasPrefix [] sub"
| "strings_Contains (d # ds) sub = (strings_HasPrefix (d # ds) sub \<or> strings_Contains ds sub)"

section \<open>The policy gates\<close>

text \<open>
  Times and durations are in nanoseconds, as integers without a bound (the dates of
  \<open>time.Time\<close> are far from the ends of its range); \<open>time.Second\<close> is \<open>10^9\<close>.
\<close>

definition time_Second :: int where
  "time_Second = 1000000000"

text \<open>
  \<open>isTokenExpirationValid\<close>: \<open>expiration.Round(0).Add(allowedDrift).After(time.Now())\<close>.
  \<open>Round(0)\<close> only drops the monotonic clock reading; \<open>After\<close> is strict. The current
  time is an argument.
\<close>

definition isTokenExpirationValid :: "int \<Rightarrow> int \<Rightarrow> int \<Rightarrow> bool" where
  "isTokenExpirationValid exp allowedDrift now =
     (let expirationWithAllowedDrift = exp + allowedDrift
      in expirationWithAllowedDrift > now)"

definition isTokenIssuerValid :: "string \<Rightarrow> string \<Rightarrow> bool" where
  "isTokenIssuerValid requiredIssuer tokIssuer =
     (if requiredIssuer = [] then False else tokIssuer = requiredIssuer)"

fun audienceLoop :: "string \<Rightarrow> string list \<Rightarrow> bool" where
  "audienceLoop requiredAudience [] = False"
| "audienceLoop requiredAudience (a # as) =
     (if a = requiredAudience then True else audienceLoop requiredAudience as)"

definition isTokenAudienceValid :: "string \<Rightarrow> string list \<Rightarrow> bool" where
  "isTokenAudienceValid requiredAudience audiences =
     (if requiredAudience = [] then True else audienceLoop requiredAudience audiences)"

section \<open>The signature-algorithm resolver\<close>

text \<open>
  \<open>jwa.SignatureAlgorithm\<close> and \<open>jwa.KeyType\<close> are string types. \<open>alg.Accept(s)\<close>
  belongs to the JWS library: it fails when \<open>s\<close> is not in the library's table of
  signature algorithms and sets \<open>alg\<close> to \<open>s\<close> otherwise. The table is the argument
  \<open>known\<close>.
\<close>

definition jwa_RSA :: string where "jwa_RSA = ''RSA''"
definition jwa_EC :: string where "jwa_EC = ''EC''"
definition jwa_RS256 :: string where "jwa_RS256 = ''RS256''"
definition jwa_ES256 :: string where "jwa_ES256 = ''ES256''"

definition getSignatureAlgorithmFromString :: "(string \<Rightarrow> bool) \<Rightarrow> string \<Rightarrow> error + string" where
  "getSignatureAlgorithmFromString known s =
     (if \<not> known s then Inl (LibError ''invalid jwa.SignatureAlgorithm value'')
      else Inr s)"

definition getSignatureAlgorithm ::
  "(string \<Rightarrow> bool) \<Rightarrow> string \<Rightarrow> string \<Rightarrow> string \<Rightarrow> error + string" where
  "getSignatureAlgorithm known kty keyAlg fallbackAlg =
     (if keyAlg \<noteq> [] then getSignatureAlgorithmFromString known keyAlg
      else if fallbackAlg \<noteq> [] then Inr fallbackAlg
      else if kty = jwa_RSA then Inr jwa_RS256
      else if kty = jwa_EC then Inr jwa_ES256
      else Inl (UnableToGetSignatureAlgorithm kty keyAlg fallbackAlg))"

text \<open>The signature algorithms of the JWS library's table, for concrete runs.\<close>

definition allSignatureAlgorithms :: "string list" where
  "allSignatureAlgorithms =
     [''ES256'', ''ES256K'', ''ES384'', ''ES512'', ''EdDSA'', ''HS256'', ''HS384'', ''HS512'',
      ''none'', ''PS256'', ''PS384'', ''PS512'', ''RS256'', ''RS384'', ''RS512'']"

definition jwa_known :: "string \<Rightarrow> bool" where
  "jwa_known s = (s \<in> set allSignatureAlgorithms)"

section \<open>The required-claims check\<close>

text \<open>
  \<open>isRequiredClaimsValid\<close> ranges over the required map; the list is the entries of that
  map in the order in which the runtime visits them (any order is possible, the keys are
  distinct). The first failing entry ends the loop. The two helpers \<open>getCtyValues\<close> and
  \<open>isCtyValueValid\<close> are arguments.
\<close>

fun isRequiredClaimsValid ::
  "(claim_value \<Rightarrow> claim_value \<Rightarrow> error + ('c \<times> 'c)) \<Rightarrow> ('c \<Rightarrow> 'c \<Rightarrow> error option) \<Rightarrow>
   (string \<times> claim_value) list \<Rightarrow> (string \<rightharpoonup> claim_value) \<Rightarrow> error option" where
  "isRequiredClaimsValid gcv icv [] tokenClaims = None"
| "isRequiredClaimsValid gcv icv ((requiredKey, requiredValue) # rest) tokenClaims =
     (case tokenClaims requiredKey of
        None \<Rightarrow> Some (TokenDoesNotHaveTheClaim requiredKey)
      | Some tokenValue \<Rightarrow>
          (case gcv requiredValue tokenValue of
             Inl err \<Rightarrow> Some err
           | Inr (required, received) \<Rightarrow>
               (case icv required received of
                  Some err \<Rightarrow> Some (ClaimNotValid requiredKey err)
                | None \<Rightarrow> isRequiredClaimsValid gcv icv rest tokenClaims)))"

text \<open>
  Modelled from the spec: \<open>getCtyValues\<close> and \<open>isCtyValueValid\<close> are not in the source
  files at hand. The spec's claims matcher (component D) is structural containment: a
  scalar matches an equal scalar, a sequence matches a sequence that has a match for each of
  its elements, a mapping matches a mapping that has each of its keys with a matching value.
\<close>

fun ctyMatch :: "claim_value \<Rightarrow> claim_value \<Rightarrow> bool" where
  "ctyMatch (VString a) b = (b = VString a)"
| "ctyMatch (VNumber a) b = (b = VNumber a)"
| "ctyMatch (VBool a) b = (b = VBool a)"
| "ctyMatch (VList rs) (VList os) = list_all (\<lambda>r. list_ex (\<lambda>ob. ctyMatch r ob) os) rs"
| "ctyMatch (VMap rfs) (VMap ofs) =
     list_all (\<lambda>kv. case map_of ofs (fst kv) of None \<Rightarrow> False
                    | Some ov \<Rightarrow> ctyMatch (snd kv) ov) rfs"
| "ctyMatch r ob = False"

text \<open>
  Modelled from the spec: \<open>getCtyValues\<close> is not in the source files at hand; the
  spec's matcher takes the required and the observed value as they are.
\<close>

definition getCtyValues_spec :: "claim_value \<Rightarrow> claim_value \<Rightarrow> error + (claim_value \<times> claim_value)" where
  "getCtyValues_spec a b = Inr (a, b)"

text \<open>
  Modelled from the spec: \<open>isCtyValueValid\<close> is not in the source files at hand; it is
  the spec's matcher, with an error when the observed value does not contain the required
  one.
\<close>

definition isCtyValueValid_spec :: "claim_value \<Rightarrow> claim_value \<Rightarrow> error option" where
  "isCtyValueValid_spec a b = (if ctyMatch a b then None else Some (LibError ''value mismatch''))"

section \<open>The handler and its collaborators\<close>

text \<open>
  What \<open>ParseToken\<close> calls outside the source files at hand is a field of \<open>env\<close>:
  the HTTP fetch and JSON decoding of the discovery document, the key manager (its state is
  \<open>'kh\<close>; \<open>getKey\<close> and \<open>waitForUpdateKeySetAndGetKey\<close> return the new state), the JWS
  and JWT parsers, the clock and the claim conversion. \<open>jwt_ParseString\<close> returns the
  message of its error (\<open>err.Error()\<close>) on the left.
\<close>

record ('kh, 'c) env =
  fetchDiscoveryData :: "nat option \<Rightarrow> string \<Rightarrow> int \<Rightarrow> error + string"
  newKeyHandler :: "nat option \<Rightarrow> string \<Rightarrow> int \<Rightarrow> nat \<Rightarrow> bool \<Rightarrow> error + 'kh"
  getKey :: "'kh \<Rightarrow> string \<Rightarrow> (error + jwk_key) \<times> 'kh"
  waitForUpdateKeySetAndGetKey :: "'kh \<Rightarrow> (error + jwk_key) \<times> 'kh"
  jws_ParseString :: "string \<Rightarrow> error + headers list"
  jwt_ParseString :: "string \<Rightarrow> string \<Rightarrow> jwk_key \<Rightarrow> string + token"
  token_AsMap :: "token \<Rightarrow> error + (string \<rightharpoonup> claim_value)"
  time_Now :: int
  jwa_Accept :: "string \<Rightarrow> bool"
  getCtyValues :: "claim_value \<Rightarrow> claim_value \<Rightarrow> error + ('c \<times> 'c)"
  isCtyValueValid :: "'c \<Rightarrow> 'c \<Rightarrow> error option"

record options =
  Issuer :: string
  DiscoveryUri :: string
  JwksUri :: string
  JwksFetchTimeout :: int
  JwksRateLimit :: nat
  FallbackSignatureAlgorithm :: string
  AllowedTokenDrift :: int
  LazyLoadJwks :: bool
  RequiredTokenType :: string
  RequiredAudience :: string
  RequiredClaims :: "(string \<times> claim_value) list option"
  DisableKeyID :: bool
  HttpClient :: "nat option"

text \<open>
  The handler. \<open>httpClient\<close> is a pointer (\<open>None\<close> is \<open>nil\<close>), \<open>requiredClaims\<close> a map
  that may be \<open>nil\<close>, \<open>keyHandler\<close> the key manager once it exists.
\<close>

record 'kh handler =
  issuer :: string
  discoveryUri :: string
  jwksUri :: string
  jwksFetchTimeout :: int
  jwksRateLimit :: nat
  fallbackSignatureAlgorithm :: string
  allowedTokenDrift :: int
  requiredAudience :: string
  requiredTokenType :: string
  requiredClaims :: "(string \<times> claim_value) list option"
  disableKeyID :: bool
  httpClient :: "nat option"
  keyHandler :: "'kh option"

definition http_DefaultClient :: nat where
  "http_DefaultClient = 0"

text \<open>What \<open>ParseToken\<close> asks of its collaborators, in order.\<close>

datatype event =
    EvFetchDiscovery string
  | EvNewKeyHandler string
  | EvGetKey string
  | EvWaitForUpdate
  | EvVerify jwk_key string

definition strings_TrimSuffix_slash :: "string \<Rightarrow> string" where
  "strings_TrimSuffix_slash s = (if s \<noteq> [] \<and> last s = CHR ''/'' then butlast s else s)"

definition GetDiscoveryUriFromIssuer :: "string \<Rightarrow> string" where
  "GetDiscoveryUriFromIssuer iss =
     strings_TrimSuffix_slash iss @ ''/.well-known/openid-configuration''"

definition getJwksUriFromDiscoveryUri ::
  "('kh, 'c) env \<Rightarrow> nat option \<Rightarrow> string \<Rightarrow> int \<Rightarrow> error + string" where
  "getJwksUriFromDiscoveryUri env client uri fetchTimeout =
     (case fetchDiscoveryData env client uri fetchTimeout of
        Inl err \<Rightarrow> Inl err
      | Inr discoveredJwksUri \<Rightarrow>
          if discoveredJwksUri = [] then Inl JwksUriIsEmpty else Inr discoveredJwksUri)"

definition getHeadersFromTokenString :: "('kh, 'c) env \<Rightarrow> string \<Rightarrow> error + headers" where
  "getHeadersFromTokenString env tokenString =
     (case jws_ParseString env tokenString of
        Inl err \<Rightarrow> Inl (UnableToParseTokenString err)
      | Inr signatures \<Rightarrow>
          (case signatures of
             [hs] \<Rightarrow> Inr hs
           | _ \<Rightarrow> Inl MoreThanOneSignature))"

definition getKeyIDFromTokenString :: "('kh, 'c) env \<Rightarrow> string \<Rightarrow> error + string" where
  "getKeyIDFromTokenString env tokenString =
     (case getHeadersFromTokenString env tokenString of
        Inl err \<Rightarrow> Inl err
      | Inr hs \<Rightarrow> if hdrKeyID hs = [] then Inl NoKeyIDInHeader else Inr (hdrKeyID hs))"

definition getTokenTypeFromTokenString :: "('kh, 'c) env \<Rightarrow> string \<Rightarrow> error + string" where
  "getTokenTypeFromTokenString env tokenString =
     (case getHeadersFromTokenString env tokenString of
        Inl err \<Rightarrow> Inl err
      | Inr hs \<Rightarrow> if hdrType hs = [] then Inl NoTypeInHeader else Inr (hdrType hs))"

definition isTokenTypeValid :: "('kh, 'c) env \<Rightarrow> string \<Rightarrow> string \<Rightarrow> bool" where
  "isTokenTypeValid env requiredType tokenString =
     (if requiredType = [] then True
      else (case getTokenTypeFromTokenString env tokenString of
              Inl err \<Rightarrow> False
            | Inr tokenType \<Rightarrow> if tokenType \<noteq> requiredType then False else True))"

definition errSignatureVerification_Error :: string where
  "errSignatureVerification_Error = ''failed to verify signature''"

definition getAndValidateTokenFromString ::
  "('kh, 'c) env \<Rightarrow> string \<Rightarrow> jwk_key \<Rightarrow> string \<Rightarrow> error + token" where
  "getAndValidateTokenFromString env tokenString key alg =
     (case jwt_ParseString env tokenString alg key of
        Inl msg \<Rightarrow>
          if strings_Contains msg errSignatureVerification_Error
          then Inl errSignatureVerification
          else Inl (LibError msg)
      | Inr tok \<Rightarrow> Inr tok)"

section \<open>Loading the key manager\<close>

text \<open>
  \<open>loadJwks\<close> returns its error (if any), the handler as it leaves it and the calls it
  made. The handler keeps a discovered \<open>jwksUri\<close> also when \<open>newKeyHandler\<close> fails
  afterwards.
\<close>

definition initKeyHandler ::
  "('kh, 'c) env \<Rightarrow> 'kh handler \<Rightarrow> error option \<times> 'kh handler \<times> event list" where
  "initKeyHandler env h =
     (case newKeyHandler env (httpClient h) (jwksUri h) (jwksFetchTimeout h) (jwksRateLimit h)
             (disableKeyID h) of
        Inl err \<Rightarrow> (Some (UnableToInitializeKeyHandler err), h, [EvNewKeyHandler (jwksUri h)])
      | Inr kh \<Rightarrow> (None, h\<lparr>keyHandler := Some kh\<rparr>, [EvNewKeyHandler (jwksUri h)]))"

definition loadJwks ::
  "('kh, 'c) env \<Rightarrow> 'kh handler \<Rightarrow> error option \<times> 'kh handler \<times> event list" where
  "loadJwks env h =
     (if jwksUri h = [] then
        (case getJwksUriFromDiscoveryUri env (httpClient h) (discoveryUri h) (5 * time_Second) of
           Inl err \<Rightarrow>
             (Some (UnableToFetchJwksUri (discoveryUri h) err), h,
              [EvFetchDiscovery (discoveryUri h)])
         | Inr discoveredJwksUri \<Rightarrow>
             (case initKeyHandler env (h\<lparr>jwksUri := discoveredJwksUri\<rparr>) of
                (r, h', tr) \<Rightarrow> (r, h', EvFetchDiscovery (discoveryUri h) # tr)))
      else initKeyHandler env h)"

definition NewHandler :: "('kh, 'c) env \<Rightarrow> options \<Rightarrow> error + 'kh handler" where
  "NewHandler env opts =
     (let h0 = \<lparr> issuer = Issuer opts, discoveryUri = DiscoveryUri opts, jwksUri = JwksUri opts,
                 jwksFetchTimeout = JwksFetchTimeout opts, jwksRateLimit = JwksRateLimit opts,
                 fallbackSignatureAlgorithm = [],
                 allowedTokenDrift = AllowedTokenDrift opts,
                 requiredAudience = RequiredAudience opts,
                 requiredTokenType = RequiredTokenType opts,
                 requiredClaims = RequiredClaims opts, disableKeyID = DisableKeyID opts,
                 httpClient = HttpClient opts, keyHandler = None \<rparr>
      in if issuer h0 = [] then Inl IssuerIsEmpty
         else
           let h1 = (if discoveryUri h0 = []
                     then h0\<lparr>discoveryUri := GetDiscoveryUriFromIssuer (issuer h0)\<rparr> else h0);
               h2 = (if jwksFetchTimeout h1 = 0
                     then h1\<lparr>jwksFetchTimeout := 5 * time_Second\<rparr> else h1);
               h3 = (if jwksRateLimit h2 = 0 then h2\<lparr>jwksRateLimit := 1\<rparr> else h2)
           in (case (if FallbackSignatureAlgorithm opts \<noteq> []
                     then (case getSignatureAlgorithmFromString (jwa_Accept env)
                                  (FallbackSignatureAlgorithm opts) of
                             Inl err \<Rightarrow> Inl (FallbackSignatureAlgorithmNotAccepted err)
                           | Inr alg \<Rightarrow> Inr (h3\<lparr>fallbackSignatureAlgorithm := alg\<rparr>))
                     else Inr h3) of
                 Inl err \<Rightarrow> Inl err
               | Inr h4 \<Rightarrow>
                   let h5 = (if allowedTokenDrift h4 = 0
                             then h4\<lparr>allowedTokenDrift := 10 * time_Second\<rparr> else h4);
                       h6 = (if httpClient h5 = None
                             then h5\<lparr>httpClient := Some http_DefaultClient\<rparr> else h5)
                   in if \<not> LazyLoadJwks opts then
                        (case loadJwks env h6 of
                           (Some err, h7, tr) \<Rightarrow> Inl (UnableToLoadJwks err)
                         | (None, h7, tr) \<Rightarrow> Inr h7)
                      else Inr h6))"

section \<open>ParseToken\<close>

text \<open>
  \<open>ParseToken\<close> in four stages, each returning the handler as it leaves it and the calls
  it made. First the lazy load (the \<open>if h.keyHandler == nil\<close> block).
\<close>

definition ensureKeyHandler ::
  "('kh, 'c) env \<Rightarrow> 'kh handler \<Rightarrow> error option \<times> 'kh handler \<times> event list" where
  "ensureKeyHandler env h =
     (if keyHandler h = None then
        (case loadJwks env h of
           (Some err, h', tr) \<Rightarrow> (Some (UnableToLoadJwks err), h', tr)
         | (None, h', tr) \<Rightarrow> (None, h', tr))
      else (None, h, []))"

text \<open>
  Then the token type, the key id, the key and the algorithm. The key manager is called
  through the handler's pointer; the model keeps the manager's new state in the handler.
\<close>

definition lookupKeyAndAlgorithm ::
  "('kh, 'c) env \<Rightarrow> 'kh handler \<Rightarrow> string \<Rightarrow>
   (error + (jwk_key \<times> string)) \<times> 'kh handler \<times> event list" where
  "lookupKeyAndAlgorithm env h tokenString =
     (if \<not> isTokenTypeValid env (requiredTokenType h) tokenString
      then (Inl (TokenTypeRequired (requiredTokenType h)), h, [])
      else
        (case (if \<not> disableKeyID h then getKeyIDFromTokenString env tokenString else Inr []) of
           Inl err \<Rightarrow> (Inl err, h, [])
         | Inr keyID \<Rightarrow>
             (case keyHandler h of
                None \<Rightarrow> (Inl NilKeyHandlerPanic, h, [])
              | Some kh \<Rightarrow>
                  (case getKey env kh keyID of
                     (Inl err, kh') \<Rightarrow>
                       (Inl (UnableToGetPublicKey err), h\<lparr>keyHandler := Some kh'\<rparr>,
                        [EvGetKey keyID])
                   | (Inr key, kh') \<Rightarrow>
                       (case getSignatureAlgorithm (jwa_Accept env) (KeyType key) (Algorithm key)
                               (fallbackSignatureAlgorithm h) of
                          Inl err \<Rightarrow> (Inl err, h\<lparr>keyHandler := Some kh'\<rparr>, [EvGetKey keyID])
                        | Inr alg \<Rightarrow>
                            (Inr (key, alg), h\<lparr>keyHandler := Some kh'\<rparr>,
                             [EvGetKey keyID]))))))"

text \<open>
  The verification, with the refresh and the second attempt of the mode without key ids.
  The second \<open>getSignatureAlgorithm\<close> call has \<open>key\<close>, not \<open>updatedKey\<close>, as the source
  has.
\<close>

definition verifyToken ::
  "('kh, 'c) env \<Rightarrow> 'kh handler \<Rightarrow> string \<Rightarrow> jwk_key \<Rightarrow> string \<Rightarrow>
   (error + token) \<times> 'kh handler \<times> event list" where
  "verifyToken env h tokenString key alg =
     (case getAndValidateTokenFromString env tokenString key alg of
        Inr tok \<Rightarrow> (Inr tok, h, [EvVerify key alg])
      | Inl err \<Rightarrow>
          if disableKeyID h \<and> errors_Is err errSignatureVerification then
            (case keyHandler h of
               None \<Rightarrow> (Inl NilKeyHandlerPanic, h, [EvVerify key alg])
             | Some kh \<Rightarrow>
                 (case waitForUpdateKeySetAndGetKey env kh of
                    (Inl err2, kh') \<Rightarrow>
                      (Inl err2, h\<lparr>keyHandler := Some kh'\<rparr>, [EvVerify key alg, EvWaitForUpdate])
                  | (Inr updatedKey, kh') \<Rightarrow>
                      (case getSignatureAlgorithm (jwa_Accept env) (KeyType key) (Algorithm key)
                              (fallbackSignatureAlgorithm h) of
                         Inl err3 \<Rightarrow>
                           (Inl err3, h\<lparr>keyHandler := Some kh'\<rparr>,
                            [EvVerify key alg, EvWaitForUpdate])
                       | Inr alg2 \<Rightarrow>
                           (case getAndValidateTokenFromString env tokenString updatedKey alg2 of
                              Inl err4 \<Rightarrow>
                                (Inl err4, h\<lparr>keyHandler := Some kh'\<rparr>,
                                 [EvVerify key alg, EvWaitForUpdate, EvVerify updatedKey alg2])
                            | Inr tok \<Rightarrow>
                                (Inr tok, h\<lparr>keyHandler := Some kh'\<rparr>,
                                 [EvVerify key alg, EvWaitForUpdate,
                                  EvVerify updatedKey alg2])))))
          else (Inl err, h, [EvVerify key alg]))"

text \<open>The gates on the verified token, in the source's order.\<close>

definition checkPolicy :: "('kh, 'c) env \<Rightarrow> 'kh handler \<Rightarrow> token \<Rightarrow> error + token" where
  "checkPolicy env h tok =
     (if \<not> isTokenExpirationValid (expiration tok) (allowedTokenDrift h) (time_Now env)
      then Inl (TokenHasExpired (expiration tok))
      else if \<not> isTokenIssuerValid (issuer h) (tokenIssuer tok)
      then Inl (RequiredIssuerNotFound (issuer h) (tokenIssuer tok))
      else if \<not> isTokenAudienceValid (requiredAudience h) (audience tok)
      then Inl (RequiredAudienceNotFound (requiredAudience h) (audience tok))
      else
        (case requiredClaims h of
           None \<Rightarrow> Inr tok
         | Some required \<Rightarrow>
             (case token_AsMap env tok of
                Inl err \<Rightarrow> Inl (UnableToGetTokenClaims err)
              | Inr tokenClaims \<Rightarrow>
                  (case isRequiredClaimsValid (getCtyValues env) (isCtyValueValid env)
                          required tokenClaims of
                     Some err \<Rightarrow> Inl (UnableToValidateRequiredClaims err)
                   | None \<Rightarrow> Inr tok))))"

definition ParseToken ::
  "('kh, 'c) env \<Rightarrow> 'kh handler \<Rightarrow> string \<Rightarrow> (error + token) \<times> 'kh handler \<times> event list" where
  "ParseToken env h tokenString =
     (case ensureKeyHandler env h of
        (Some err, h1, tr1) \<Rightarrow> (Inl err, h1, tr1)
      | (None, h1, tr1) \<Rightarrow>
          (case lookupKeyAndAlgorithm env h1 tokenString of
             (Inl err, h2, tr2) \<Rightarrow> (Inl err, h2, tr1 @ tr2)
           | (Inr (key, alg), h2, tr2) \<Rightarrow>
               (case verifyToken env h2 tokenString key alg of
                  (Inl err, h3, tr3) \<Rightarrow> (Inl err, h3, tr1 @ tr2 @ tr3)
                | (Inr tok, h3, tr3) \<Rightarrow> (checkPolicy env h3 tok, h3, tr1 @ tr2 @ tr3))))"

definition countRefresh :: "event list \<Rightarrow> nat" where
  "countRefresh tr = length (filter (\<lambda>e. e = EvWaitForUpdate) tr)"

fun isVerify :: "event \<Rightarrow> bool" where
  "isVerify (EvVerify k a) = True"
| "isVerify e = False"

definition verifications :: "event list \<Rightarrow> event list" where
  "verifications tr = filter isVerify tr"

section \<open>The key manager of the spec\<close>

text \<open>
  Modelled from the spec: the key manager (\<open>keyHandler\<close>, with \<open>newKeyHandler\<close>,
  \<open>updateKeySet\<close> and the \<open>waitForUpdateKeySet\<close> calls) is not in the source files at
  hand; only its tests and its callers are. The state is the spec's: the current key set,
  \<open>updateCount\<close>, \<open>rateLimit\<close>, \<open>lastRefreshAt\<close> and the mode flag. The requests that
  wait for the refresher are \<open>pending\<close>, each with the caller and the \<open>updateCount\<close> at
  the time it was enqueued; \<open>responses\<close> holds the response attached to a caller.
\<close>

record manager =
  keySet :: "jwk_key list"
  updateCount :: nat
  rateLimit :: nat
  lastRefreshAt :: int
  unkeyed :: bool
  pending :: "(nat \<times> nat) list"
  responses :: "nat \<rightharpoonup> (error + jwk_key list)"

text \<open>
  Modelled from the spec: a caller of \<open>waitForUpdateKeySet\<close> enqueues a request that
  carries the \<open>updateCount\<close> of that moment; requests are served in the order of arrival.
\<close>

definition enqueue :: "nat \<Rightarrow> manager \<Rightarrow> manager" where
  "enqueue caller m = m\<lparr>pending := pending m @ [(caller, updateCount m)]\<rparr>"

text \<open>
  Modelled from the spec: steps 3 to 5 of a refresh, for the result of the fetch. A failed
  fetch changes nothing; a fetched set that breaks the rule of the mode without key ids
  (exactly one key) is an error and is not installed; otherwise the set is installed,
  \<open>updateCount\<close> goes up by one and \<open>lastRefreshAt\<close> is set.
\<close>

definition updateKeySet ::
  "(error + jwk_key list) \<Rightarrow> int \<Rightarrow> manager \<Rightarrow> (error + jwk_key list) \<times> manager" where
  "updateKeySet fetched now m =
     (case fetched of
        Inl err \<Rightarrow> (Inl err, m)
      | Inr ks \<Rightarrow>
          if unkeyed m \<and> length ks \<noteq> 1
          then (Inl (LibError ''keyID is disabled, but received a jwks with more than one key''), m)
          else (Inr ks, m\<lparr>keySet := ks, updateCount := updateCount m + 1,
                            lastRefreshAt := now\<rparr>))"

text \<open>
  Modelled from the spec: step 1, the rate-limit gate: the fetch does not start before
  \<open>lastRefreshAt + 1/rateLimit\<close> seconds.
\<close>

definition gate :: "manager \<Rightarrow> int \<Rightarrow> int" where
  "gate m now = max now (lastRefreshAt m + time_Second div int (rateLimit m))"

text \<open>
  Modelled from the spec: one round of the refresher. With no request pending it does
  nothing (\<open>None\<close>). Otherwise the batch is every request pending when the fetch starts;
  the result of the one fetch is attached to every request of the batch; the callers that
  arrive while the fetch is in flight (\<open>arrivals\<close>) are the next batch.
\<close>

definition refresherStep ::
  "(error + jwk_key list) \<Rightarrow> nat list \<Rightarrow> int \<Rightarrow> manager \<Rightarrow> manager option" where
  "refresherStep fetched arrivals now m =
     (if pending m = [] then None
      else
        (case updateKeySet fetched (gate m now) m of
           (r, m') \<Rightarrow>
             Some (m'\<lparr>pending := map (\<lambda>c. (c, updateCount m)) arrivals,
                      responses := (\<lambda>c. if c \<in> fst ` set (pending m) then Some r
                                          else responses m' c)\<rparr>)))"

text \<open>
  Modelled from the spec: \<open>construct\<close> (\<open>newKeyHandler\<close>) makes one refresh through the
  same path; on failure there is no manager.
\<close>

definition construct :: "(error + jwk_key list) \<Rightarrow> int \<Rightarrow> nat \<Rightarrow> bool \<Rightarrow> error + manager" where
  "construct fetched now rate noKeyID =
     (case updateKeySet fetched now
             \<lparr> keySet = [], updateCount = 0, rateLimit = rate, lastRefreshAt = now,
               unkeyed = noKeyID, pending = [], responses = Map.empty \<rparr> of
        (Inl err, m) \<Rightarrow> Inl err
      | (Inr ks, m) \<Rightarrow> Inr m)"

text \<open>
  Modelled from the spec: \<open>waitForUpdateKeySetAndGetKeySet\<close> by one caller with nobody
  else waiting: the request is enqueued, the refresher serves it, and the caller returns
  the response attached to it.
\<close>

definition waitForUpdateKeySetAndGetKeySet ::
  "(error + jwk_key list) \<Rightarrow> int \<Rightarrow> nat \<Rightarrow> manager \<Rightarrow> (error + jwk_key list) \<times> manager" where
  "waitForUpdateKeySetAndGetKeySet fetched now caller m =
     (case refresherStep fetched [] now (enqueue caller m) of
        None \<Rightarrow> (Inl (LibError ''no response''), m)
      | Some m' \<Rightarrow>
          (case responses m' caller of
             None \<Rightarrow> (Inl (LibError ''no response''), m')
           | Some r \<Rightarrow> (r, m')))"

text \<open>
  Modelled from the spec: the callers of the list arrive, each enqueues its request, in
  the order of the list, before the refresher starts.
\<close>

fun arrive :: "nat list \<Rightarrow> manager \<Rightarrow> manager" where
  "arrive [] m = m"
| "arrive (c # cs) m = arrive cs (enqueue c m)"

section \<open>Predicates for stating the properties\<close>

text \<open>
  \<open>samePolicy h h'\<close>: the policy fields of the handler are the same in \<open>h'\<close> as in \<open>h\<close>
  (all fields but \<open>jwksUri\<close> and \<open>keyHandler\<close>).
\<close>

definition samePolicy :: "'kh handler \<Rightarrow> 'kh handler \<Rightarrow> bool" where
  "samePolicy h h' \<longleftrightarrow>
     issuer h' = issuer h \<and> discoveryUri h' = discoveryUri h \<and>
     requiredAudience h' = requiredAudience h \<and> requiredTokenType h' = requiredTokenType h \<and>
     requiredClaims h' = requiredClaims h \<and>
     fallbackSignatureAlgorithm h' = fallbackSignatureAlgorithm h \<and>
     allowedTokenDrift h' = allowedTokenDrift h \<and> jwksFetchTimeout h' = jwksFetchTimeout h \<and>
     jwksRateLimit h' = jwksRateLimit h \<and> disableKeyID h' = disableKeyID h \<and>
     httpClient h' = httpClient h"

text \<open>
  \<open>claimContained\<close>: the observed value contains the required one, as the two helpers
  decide it (the conversion succeeds and the check returns no error). \<open>claimOk\<close>: the
  entry's key is in the observed claims with a value that contains the required one.
\<close>

definition claimContained ::
  "(claim_value \<Rightarrow> claim_value \<Rightarrow> error + ('c \<times> 'c)) \<Rightarrow> ('c \<Rightarrow> 'c \<Rightarrow> error option) \<Rightarrow>
   claim_value \<Rightarrow> claim_value \<Rightarrow> bool" where
  "claimContained gcv icv requiredValue tokenValue =
     (case gcv requiredValue tokenValue of
        Inl err \<Rightarrow> False
      | Inr (required, received) \<Rightarrow> icv required received = None)"

definition claimOk ::
  "(claim_value \<Rightarrow> claim_value \<Rightarrow> error + ('c \<times> 'c)) \<Rightarrow> ('c \<Rightarrow> 'c \<Rightarrow> error option) \<Rightarrow>
   (string \<rightharpoonup> claim_value) \<Rightarrow> string \<times> claim_value \<Rightarrow> bool" where
  "claimOk gcv icv tokenClaims entry =
     (case tokenClaims (fst entry) of
        None \<Rightarrow> False
      | Some tokenValue \<Rightarrow> claimContained gcv icv (snd entry) tokenValue)"

text \<open>The calls that set the key manager up: discovery and \<open>newKeyHandler\<close>.\<close>

fun setupEvent :: "event \<Rightarrow> bool" where
  "setupEvent (EvFetchDiscovery u) = True"
| "setupEvent (EvNewKeyHandler u) = True"
| "setupEvent e = False"

section \<open>A concrete issuer\<close>

text \<open>
  An issuer without key ids that serves an RSA key first and an EC key after its rotation.
  The key manager's state is the list of the keys it will be served, the current one first;
  a refresh moves to the next. The token \<open>''tokenB''\<close> is signed with the EC key.
\<close>

definition demoKeyA :: jwk_key where
  "demoKeyA = \<lparr> KeyType = ''RSA'', Algorithm = ''RS256'', KeyID = [], material = 1 \<rparr>"

definition demoKeyB :: jwk_key where
  "demoKeyB = \<lparr> KeyType = ''EC'', Algorithm = ''ES256'', KeyID = [], material = 2 \<rparr>"

text \<open>An EC key that declares no algorithm, served before the rotation to \<open>demoKeyB\<close>.\<close>

definition demoKeyC :: jwk_key where
  "demoKeyC = \<lparr> KeyType = ''EC'', Algorithm = [], KeyID = [], material = 3 \<rparr>"

definition demoToken :: token where
  "demoToken = \<lparr> expiration = 2000 * time_Second, tokenIssuer = ''https://issuer/'',
                 audience = [''a''], payload = 7 \<rparr>"

definition demoEnv :: "(jwk_key list, claim_value) env" where
  "demoEnv =
     \<lparr> fetchDiscoveryData = (\<lambda>client uri fetchTimeout. Inr ''https://issuer/jwks''),
       newKeyHandler = (\<lambda>client uri fetchTimeout rateLimit noKeyID. Inr [demoKeyA, demoKeyB]),
       getKey = (\<lambda>kh keyID.
          (case kh of [] \<Rightarrow> Inl (LibError ''unable to find key'') | k # ks \<Rightarrow> Inr k, kh)),
       waitForUpdateKeySetAndGetKey = (\<lambda>kh.
          case kh of
            k # k' # ks \<Rightarrow> (Inr k', k' # ks)
          | _ \<Rightarrow> (Inl (LibError ''unable to fetch keys''), kh)),
       jws_ParseString = (\<lambda>s. Inr [\<lparr> hdrKeyID = ''kid-b'', hdrType = ''JWT'' \<rparr>]),
       jwt_ParseString = (\<lambda>s alg key.
          if s \<noteq> ''tokenB'' then Inl ''invalid compact serialization format''
          else if key = demoKeyB \<and> alg = ''ES256'' then Inr demoToken
          else Inl ''failed to verify jws signature: failed to verify signature''),
       token_AsMap = (\<lambda>t. Inr (map_of [(''azp'', VString ''c''), (''scope'', VString ''x'')])),
       time_Now = 1000 * time_Second,
       jwa_Accept = jwa_known,
       getCtyValues = getCtyValues_spec,
       isCtyValueValid = isCtyValueValid_spec \<rparr>"

definition demoHandler :: "jwk_key list handler" where
  "demoHandler =
     \<lparr> issuer = ''https://issuer/'',
       discoveryUri = ''https://issuer/.well-known/openid-configuration'',
       jwksUri = ''https://issuer/jwks'',
       jwksFetchTimeout = 5 * time_Second, jwksRateLimit = 1,
       fallbackSignatureAlgorithm = [],
       allowedTokenDrift = 10 * time_Second,
       requiredAudience = ''a'', requiredTokenType = [],
       requiredClaims = Some [(''azp'', VString ''c'')],
       disableKeyID = True, httpClient = Some http_DefaultClient,
       keyHandler = Some [demoKeyA, demoKeyB] \<rparr>"

definition demoOptions :: options where
  "demoOptions =
     \<lparr> Issuer = ''https://issuer/'', DiscoveryUri = [], JwksUri = [],
       JwksFetchTimeout = 0, JwksRateLimit = 0, FallbackSignatureAlgorithm = [],
       AllowedTokenDrift = 0, LazyLoadJwks = False, RequiredTokenType = [],
       RequiredAudience = ''a'', RequiredClaims = Some [(''azp'', VString ''c'')],
       DisableKeyID = True, HttpClient = None \<rparr>"

text \<open>A conversion that fails on a null value, to run the branch of a failed conversion.\<close>

definition getCtyValues_nonNull ::
  "claim_value \<Rightarrow> claim_value \<Rightarrow> error + (claim_value \<times> claim_value)" where
  "getCtyValues_nonNull a b =
     (if a = VNull \<or> b = VNull then Inl (LibError ''input is nil'') else Inr (a, b))"

text \<open>A manager of the mode without key ids, constructed on the RSA key.\<close>

definition demoManager :: manager where
  "demoManager =
     \<lparr> keySet = [demoKeyA], updateCount = 1, rateLimit = 100, lastRefreshAt = 0,
       unkeyed = True, pending = [], responses = Map.empty \<rparr>"

section \<open>Properties\<close>

subsection \<open>String containment\<close>

lemma strings_HasPrefix_iff: "strings_HasPrefix s sub \<longleftrightarrow> (\<exists>b. s = sub @ b)"
  by (induction s sub rule: strings_HasPrefix.induct) auto

lemma strings_Contains_iff: "strings_Contains s sub \<longleftrightarrow> (\<exists>a b. s = a @ sub @ b)"
proof (induction s)
  case Nil
  show ?case by (cases sub) auto
next
  case (Cons d ds)
  show ?case
  proof
    assume "strings_Contains (d # ds) sub"
    then consider "strings_HasPrefix (d # ds) sub" | "strings_Contains ds sub" by auto
    then show "\<exists>a b. d # ds = a @ sub @ b"
    proof cases
      case 1
      then obtain b where "d # ds = sub @ b" using strings_HasPrefix_iff by blast
      then have "d # ds = [] @ sub @ b" by simp
      then show ?thesis by blast
    next
      case 2
      then obtain a b where "ds = a @ sub @ b" using Cons.IH by blast
      then have "d # ds = (d # a) @ sub @ b" by simp
      then show ?thesis by blast
    qed
  next
    assume "\<exists>a b. d # ds = a @ sub @ b"
    then obtain a b where ab: "d # ds = a @ sub @ b" by blast
    show "strings_Contains (d # ds) sub"
    proof (cases a)
      case Nil
      then have "strings_HasPrefix (d # ds) sub" using ab strings_HasPrefix_iff by auto
      then show ?thesis by simp
    next
      case (Cons x xs)
      then have "ds = xs @ sub @ b" using ab by simp
      then have "strings_Contains ds sub" using Cons.IH by blast
      then show ?thesis by simp
    qed
  qed
qed

subsection \<open>What each stage of ParseToken leaves of the handler\<close>

lemma samePolicy_refl: "samePolicy h h"
  by (simp add: samePolicy_def)

lemma samePolicy_trans: "samePolicy h h1 \<Longrightarrow> samePolicy h1 h2 \<Longrightarrow> samePolicy h h2"
  by (simp add: samePolicy_def)

lemma initKeyHandler_frame:
  assumes "initKeyHandler env h = (r, h', tr)"
  shows "samePolicy h h' \<and> jwksUri h' = jwksUri h \<and> tr = [EvNewKeyHandler (jwksUri h)]
         \<and> (r = None \<longrightarrow> keyHandler h' \<noteq> None)"
  using assms by (auto simp: initKeyHandler_def samePolicy_def split: sum.splits)

lemma loadJwks_frame:
  assumes "loadJwks env h = (r, h', tr)"
  shows "samePolicy h h' \<and> (jwksUri h \<noteq> [] \<longrightarrow> jwksUri h' = jwksUri h)
         \<and> list_all setupEvent tr \<and> (r = None \<longrightarrow> keyHandler h' \<noteq> None)"
proof (cases "jwksUri h = []")
  case False
  then have "initKeyHandler env h = (r, h', tr)" using assms by (simp add: loadJwks_def)
  from initKeyHandler_frame [OF this] False show ?thesis by simp
next
  case True
  show ?thesis
  proof (cases "getJwksUriFromDiscoveryUri env (httpClient h) (discoveryUri h) (5 * time_Second)")
    case (Inl err)
    then show ?thesis using assms True
      by (auto simp: loadJwks_def samePolicy_def)
  next
    case (Inr u)
    obtain r0 h0 tr0 where i: "initKeyHandler env (h\<lparr>jwksUri := u\<rparr>) = (r0, h0, tr0)"
      by (cases "initKeyHandler env (h\<lparr>jwksUri := u\<rparr>)") auto
    with assms True Inr have eq: "r = r0" "h' = h0" "tr = EvFetchDiscovery (discoveryUri h) # tr0"
      by (auto simp: loadJwks_def)
    from initKeyHandler_frame [OF i] eq True show ?thesis
      by (auto simp: samePolicy_def)
  qed
qed

lemma ensureKeyHandler_frame:
  assumes "ensureKeyHandler env h = (r, h', tr)"
  shows "samePolicy h h' \<and> (jwksUri h \<noteq> [] \<longrightarrow> jwksUri h' = jwksUri h)
         \<and> list_all setupEvent tr \<and> (r = None \<longrightarrow> keyHandler h' \<noteq> None)
         \<and> (keyHandler h \<noteq> None \<longrightarrow> h' = h \<and> tr = [] \<and> r = None)"
proof (cases "keyHandler h = None")
  case False
  then show ?thesis using assms by (auto simp: ensureKeyHandler_def samePolicy_refl)
next
  case True
  obtain r0 h0 tr0 where l: "loadJwks env h = (r0, h0, tr0)"
    by (cases "loadJwks env h") auto
  with assms True have "h' = h0" "tr = tr0" "r = None \<longleftrightarrow> r0 = None"
    by (auto simp: ensureKeyHandler_def split: option.splits)
  with loadJwks_frame [OF l] True show ?thesis by auto
qed

lemma lookupKeyAndAlgorithm_frame:
  assumes "lookupKeyAndAlgorithm env h ts = (r, h', tr)"
  shows "samePolicy h h' \<and> jwksUri h' = jwksUri h
         \<and> (keyHandler h \<noteq> None \<longrightarrow> keyHandler h' \<noteq> None)
         \<and> (\<exists>keyID. tr = [] \<or> tr = [EvGetKey keyID])"
  using assms
  by (auto simp: lookupKeyAndAlgorithm_def samePolicy_def
      split: if_splits sum.splits option.splits prod.splits)


subsection \<open>The issuer gate\<close>

text \<open>
  C5. The issuer gate accepts a token if and only if the configured issuer is not empty and
  the token's issuer equals it. With an empty configured issuer no token is accepted, also
  not one whose issuer is empty, and the policy check of \<open>ParseToken\<close> returns an error
  for every token.
\<close>

theorem issuer_gate:
  "(isTokenIssuerValid requiredIssuer tokIssuer \<longleftrightarrow>
      requiredIssuer \<noteq> [] \<and> tokIssuer = requiredIssuer)
   \<and> \<not> isTokenIssuerValid [] tokIssuer
   \<and> \<not> isTokenIssuerValid [] []
   \<and> (issuer h = [] \<longrightarrow> (\<exists>err. checkPolicy env h tok = Inl err))"
  by (auto simp: isTokenIssuerValid_def checkPolicy_def split: option.splits sum.splits)

theorem issuer_gate_witness:
  "isTokenIssuerValid ''https://issuer/'' ''https://issuer/''
   \<and> \<not> isTokenIssuerValid ''https://issuer/'' ''https://issuer''
   \<and> \<not> isTokenIssuerValid [] []
   \<and> issuer (demoHandler\<lparr>issuer := []\<rparr>) = []
   \<and> (\<exists>err. checkPolicy demoEnv (demoHandler\<lparr>issuer := []\<rparr>) (demoToken\<lparr>tokenIssuer := []\<rparr>)
          = Inl err)"
  using issuer_gate [where requiredIssuer = "''https://issuer/''"
      and tokIssuer = "''https://issuer/''" and h = "demoHandler\<lparr>issuer := []\<rparr>"
      and env = demoEnv and tok = "demoToken\<lparr>tokenIssuer := []\<rparr>"]
    issuer_gate [where requiredIssuer = "''https://issuer/''"
      and tokIssuer = "''https://issuer''" and h = "demoHandler\<lparr>issuer := []\<rparr>"
      and env = demoEnv and tok = "demoToken\<lparr>tokenIssuer := []\<rparr>"]
  by simp

subsection \<open>The signature-algorithm resolver\<close>

lemma jwa_known_RS512: "jwa_known ''RS512''"
  by (simp add: jwa_known_def allSignatureAlgorithms_def)

lemma jwa_unknown_foo: "\<not> jwa_known ''foo''"
  by (simp add: jwa_known_def allSignatureAlgorithms_def)

text \<open>
  C6. The resolver, for a key type, a declared algorithm and a fallback: a declared
  algorithm that is not empty is parsed and returned, and is an error when it is not a
  known signature algorithm, whatever the fallback; with no declared algorithm a fallback
  that is not empty is returned; with neither, RS256 for RSA, ES256 for EC and an
  error for every other key type.
\<close>

theorem resolver_cases:
  "(keyAlg \<noteq> [] \<and> known keyAlg \<longrightarrow>
      getSignatureAlgorithm known kty keyAlg fallbackAlg = Inr keyAlg)
   \<and> (keyAlg \<noteq> [] \<and> \<not> known keyAlg \<longrightarrow>
      (\<exists>err. getSignatureAlgorithm known kty keyAlg fallbackAlg = Inl err))
   \<and> (keyAlg = [] \<and> fallbackAlg \<noteq> [] \<longrightarrow>
      getSignatureAlgorithm known kty keyAlg fallbackAlg = Inr fallbackAlg)
   \<and> (keyAlg = [] \<and> fallbackAlg = [] \<and> kty = jwa_RSA \<longrightarrow>
      getSignatureAlgorithm known kty keyAlg fallbackAlg = Inr jwa_RS256)
   \<and> (keyAlg = [] \<and> fallbackAlg = [] \<and> kty = jwa_EC \<longrightarrow>
      getSignatureAlgorithm known kty keyAlg fallbackAlg = Inr jwa_ES256)
   \<and> (keyAlg = [] \<and> fallbackAlg = [] \<and> kty \<noteq> jwa_RSA \<and> kty \<noteq> jwa_EC \<longrightarrow>
      (\<exists>err. getSignatureAlgorithm known kty keyAlg fallbackAlg = Inl err))"
  by (simp add: getSignatureAlgorithm_def getSignatureAlgorithmFromString_def
      jwa_RSA_def jwa_EC_def)

theorem resolver_cases_witness:
  "getSignatureAlgorithm jwa_known ''RSA'' ''RS512'' ''ES384'' = Inr ''RS512''
   \<and> (\<exists>err. getSignatureAlgorithm jwa_known ''RSA'' ''foo'' ''ES384'' = Inl err)
   \<and> getSignatureAlgorithm jwa_known ''RSA'' [] ''ES384'' = Inr ''ES384''
   \<and> getSignatureAlgorithm jwa_known ''RSA'' [] [] = Inr ''RS256''
   \<and> getSignatureAlgorithm jwa_known ''EC'' [] [] = Inr ''ES256''
   \<and> (\<exists>err. getSignatureAlgorithm jwa_known ''oct'' [] [] = Inl err)"
  using resolver_cases [where keyAlg = "''RS512''" and known = jwa_known and kty = "''RSA''"
      and fallbackAlg = "''ES384''"]
    resolver_cases [where keyAlg = "''foo''" and known = jwa_known and kty = "''RSA''"
      and fallbackAlg = "''ES384''"]
    resolver_cases [where keyAlg = "[]" and known = jwa_known and kty = "''RSA''"
      and fallbackAlg = "''ES384''"]
    resolver_cases [where keyAlg = "[]" and known = jwa_known and kty = "''RSA''"
      and fallbackAlg = "[]"]
    resolver_cases [where keyAlg = "[]" and known = jwa_known and kty = "''EC''"
      and fallbackAlg = "[]"]
    resolver_cases [where keyAlg = "[]" and known = jwa_known and kty = "''oct''"
      and fallbackAlg = "[]"]
    jwa_known_RS512 jwa_unknown_foo
  by (simp add: jwa_RSA_def jwa_EC_def jwa_RS256_def jwa_ES256_def)

subsection \<open>The calls of a run\<close>

lemma countRefresh_append: "countRefresh (xs @ ys) = countRefresh xs + countRefresh ys"
  by (simp add: countRefresh_def)

lemma verifications_append: "verifications (xs @ ys) = verifications xs @ verifications ys"
  by (simp add: verifications_def)

lemma setup_no_refresh: "list_all setupEvent tr \<Longrightarrow> countRefresh tr = 0 \<and> verifications tr = []"
proof (induction tr)
  case Nil
  show ?case by (simp add: countRefresh_def verifications_def)
next
  case (Cons e tr)
  then show ?case by (cases e) (auto simp: countRefresh_def verifications_def)
qed

lemma lookup_no_refresh:
  assumes "lookupKeyAndAlgorithm env h ts = (r, h', tr)"
  shows "countRefresh tr = 0 \<and> verifications tr = []"
proof -
  from lookupKeyAndAlgorithm_frame [OF assms] obtain keyID where "tr = [] \<or> tr = [EvGetKey keyID]"
    by blast
  then show ?thesis by (auto simp: countRefresh_def verifications_def)
qed

lemma lookup_success:
  assumes "lookupKeyAndAlgorithm env h ts = (Inr (key, alg), h', tr)"
  shows "(\<exists>kh. keyHandler h' = Some kh)
         \<and> getSignatureAlgorithm (jwa_Accept env) (KeyType key) (Algorithm key)
              (fallbackSignatureAlgorithm h') = Inr alg"
  using assms
  by (auto simp: lookupKeyAndAlgorithm_def
      split: if_splits sum.splits option.splits prod.splits)

lemma errors_Is_validate:
  assumes "getAndValidateTokenFromString env ts key alg = Inl err"
  shows "errors_Is err errSignatureVerification \<longleftrightarrow> err = errSignatureVerification"
  using assms by (auto simp: getAndValidateTokenFromString_def split: sum.splits if_splits)

lemma verifyToken_ok:
  assumes "getAndValidateTokenFromString env ts key alg = Inr tok"
  shows "verifyToken env h ts key alg = (Inr tok, h, [EvVerify key alg])"
  using assms by (simp add: verifyToken_def)

lemma verifyToken_terminal:
  assumes "getAndValidateTokenFromString env ts key alg = Inl err"
    and "\<not> (disableKeyID h \<and> err = errSignatureVerification)"
  shows "verifyToken env h ts key alg = (Inl err, h, [EvVerify key alg])"
  using assms errors_Is_validate [OF assms(1)] by (auto simp: verifyToken_def)

lemma verifyToken_refresh:
  assumes "getAndValidateTokenFromString env ts key alg = Inl errSignatureVerification"
    and "disableKeyID h" and "keyHandler h = Some kh"
    and "getSignatureAlgorithm (jwa_Accept env) (KeyType key) (Algorithm key)
           (fallbackSignatureAlgorithm h) = Inr alg"
  shows "verifyToken env h ts key alg =
     (case waitForUpdateKeySetAndGetKey env kh of
        (Inl err2, kh') \<Rightarrow>
          (Inl err2, h\<lparr>keyHandler := Some kh'\<rparr>, [EvVerify key alg, EvWaitForUpdate])
      | (Inr updatedKey, kh') \<Rightarrow>
          (getAndValidateTokenFromString env ts updatedKey alg, h\<lparr>keyHandler := Some kh'\<rparr>,
           [EvVerify key alg, EvWaitForUpdate, EvVerify updatedKey alg]))"
  using assms by (auto simp: verifyToken_def split: sum.splits prod.splits)

lemma ParseToken_reaching:
  assumes "ensureKeyHandler env h = (None, h1, tr1)"
    and "lookupKeyAndAlgorithm env h1 ts = (Inr (key, alg), h2, tr2)"
  shows "ParseToken env h ts =
     (case verifyToken env h2 ts key alg of
        (Inl err, h3, tr3) \<Rightarrow> (Inl err, h3, tr1 @ tr2 @ tr3)
      | (Inr tok, h3, tr3) \<Rightarrow> (checkPolicy env h3 tok, h3, tr1 @ tr2 @ tr3))"
  using assms by (simp add: ParseToken_def)

lemma checkPolicy_keyHandler: "checkPolicy env (h\<lparr>keyHandler := k\<rparr>) tok = checkPolicy env h tok"
  by (simp add: checkPolicy_def)

lemma setup_no_wait: "list_all setupEvent tr \<Longrightarrow> EvWaitForUpdate \<notin> set tr"
  by (induction tr) auto

lemma verifyToken_trace:
  assumes v: "verifyToken env h ts key alg = (r, h', tr)" and kh: "keyHandler h \<noteq> None"
  shows "(\<exists>rest. verifications tr = EvVerify key alg # rest)
       \<and> (EvWaitForUpdate \<in> set tr \<longleftrightarrow>
            disableKeyID h
            \<and> getAndValidateTokenFromString env ts key alg = Inl errSignatureVerification)
       \<and> countRefresh tr \<le> 1"
proof (cases "getAndValidateTokenFromString env ts key alg")
  case (Inr tok)
  with v have "tr = [EvVerify key alg]" by (simp add: verifyToken_ok)
  with Inr show ?thesis by (simp add: verifications_def countRefresh_def)
next
  case (Inl err)
  show ?thesis
  proof (cases "disableKeyID h \<and> err = errSignatureVerification")
    case False
    with v Inl have "tr = [EvVerify key alg]" by (simp add: verifyToken_terminal)
    with Inl False show ?thesis by (auto simp: verifications_def countRefresh_def)
  next
    case True
    obtain m where m: "keyHandler h = Some m" using kh by auto
    have "errors_Is err errSignatureVerification" using True by simp
    with v Inl True m have
      "tr = [EvVerify key alg, EvWaitForUpdate]
       \<or> (\<exists>k a. tr = [EvVerify key alg, EvWaitForUpdate, EvVerify k a])"
      by (auto simp: verifyToken_def split: sum.splits prod.splits)
    with Inl True show ?thesis by (auto simp: verifications_def countRefresh_def)
  qed
qed

lemma validate_sentinel_iff:
  "getAndValidateTokenFromString env ts key alg = Inl errSignatureVerification \<longleftrightarrow>
     (\<exists>msg a b. jwt_ParseString env ts alg key = Inl msg
        \<and> msg = a @ ''failed to verify signature'' @ b)"
  by (auto simp: getAndValidateTokenFromString_def errSignatureVerification_Error_def
      strings_Contains_iff split: sum.splits)

subsection \<open>Runs against the concrete issuer\<close>

lemmas demo_simps =
  ParseToken_def ensureKeyHandler_def lookupKeyAndAlgorithm_def verifyToken_def
  isTokenTypeValid_def demoEnv_def demoHandler_def demoKeyA_def demoKeyB_def
  getSignatureAlgorithm_def getSignatureAlgorithmFromString_def jwa_known_def
  allSignatureAlgorithms_def getAndValidateTokenFromString_def
  errSignatureVerification_Error_def getKeyIDFromTokenString_def getHeadersFromTokenString_def
  loadJwks_def initKeyHandler_def getJwksUriFromDiscoveryUri_def







lemma demo_run_keyed:
  "ParseToken demoEnv (demoHandler\<lparr>disableKeyID := False\<rparr>) ''tokenB'' =
     (Inl errSignatureVerification, demoHandler\<lparr>disableKeyID := False\<rparr>,
      [EvGetKey ''kid-b'', EvVerify demoKeyA ''RS256''])"
  by (simp add: demo_simps)


lemma demo_run_garbage:
  "ParseToken demoEnv demoHandler ''garbage'' =
     (Inl (LibError ''invalid compact serialization format''), demoHandler,
      [EvGetKey [], EvVerify demoKeyA ''RS256''])"
  by (simp add: demo_simps)

lemma demo_NewHandler:
  "NewHandler demoEnv demoOptions =
     Inr (demoHandler\<lparr>discoveryUri := ''https://issuer/.well-known/openid-configuration''\<rparr>)"
  by (simp add: NewHandler_def Let_def demoOptions_def demoEnv_def demoHandler_def loadJwks_def
      initKeyHandler_def getJwksUriFromDiscoveryUri_def GetDiscoveryUriFromIssuer_def
      strings_TrimSuffix_slash_def)

subsection \<open>Refresh and retry after a failed verification\<close>



text \<open>
  C2 (the source differs). After the refresh the source resolves the algorithm from
  \<open>key\<close>, the key whose verification failed, and not from \<open>updatedKey\<close>. Against the
  concrete issuer the key rotates from RSA/RS256 to EC/ES256 and the token is signed with
  the new key: the second verification is made with RS256 and fails, although the
  algorithm of the new key is ES256 and the token verifies and passes the gates with it.
\<close>

theorem retry_uses_old_key_algorithm:
  "ParseToken demoEnv demoHandler ''tokenB'' =
     (Inl errSignatureVerification, demoHandler\<lparr>keyHandler := Some [demoKeyB]\<rparr>,
      [EvGetKey [], EvVerify demoKeyA ''RS256'', EvWaitForUpdate, EvVerify demoKeyB ''RS256''])
   \<and> waitForUpdateKeySetAndGetKey demoEnv [demoKeyA, demoKeyB] = (Inr demoKeyB, [demoKeyB])
   \<and> getSignatureAlgorithm (jwa_Accept demoEnv) (KeyType demoKeyB) (Algorithm demoKeyB)
        (fallbackSignatureAlgorithm demoHandler) = Inr ''ES256''
   \<and> getAndValidateTokenFromString demoEnv ''tokenB'' demoKeyB ''ES256'' = Inr demoToken
   \<and> checkPolicy demoEnv demoHandler demoToken = Inr demoToken"
  by (simp add: demo_simps checkPolicy_def isTokenExpirationValid_def isTokenIssuerValid_def
      isTokenAudienceValid_def demoToken_def getCtyValues_spec_def isCtyValueValid_spec_def
      time_Second_def)

lemma ParseToken_refresh_marker:
  assumes run: "ParseToken env h ts = (res, h', tr)"
  shows "(getAndValidateTokenFromString env ts key alg = Inl errSignatureVerification \<longleftrightarrow>
           (\<exists>msg a b. jwt_ParseString env ts alg key = Inl msg
              \<and> msg = a @ ''failed to verify signature'' @ b))
       \<and> (\<forall>msg. jwt_ParseString env ts alg key = Inl msg \<longrightarrow>
             getAndValidateTokenFromString env ts key alg =
               (if \<exists>a b. msg = a @ ''failed to verify signature'' @ b
                then Inl errSignatureVerification else Inl (LibError msg)))
       \<and> (EvWaitForUpdate \<in> set tr \<longleftrightarrow>
            disableKeyID h
            \<and> (\<exists>key0 alg0 rest. verifications tr = EvVerify key0 alg0 # rest
                 \<and> getAndValidateTokenFromString env ts key0 alg0 = Inl errSignatureVerification))
       \<and> countRefresh tr \<le> 1"
proof (intro conjI)
  show "getAndValidateTokenFromString env ts key alg = Inl errSignatureVerification \<longleftrightarrow>
           (\<exists>msg a b. jwt_ParseString env ts alg key = Inl msg
              \<and> msg = a @ ''failed to verify signature'' @ b)"
    by (rule validate_sentinel_iff)
  show "\<forall>msg. jwt_ParseString env ts alg key = Inl msg \<longrightarrow>
             getAndValidateTokenFromString env ts key alg =
               (if \<exists>a b. msg = a @ ''failed to verify signature'' @ b
                then Inl errSignatureVerification else Inl (LibError msg))"
    by (auto simp: getAndValidateTokenFromString_def errSignatureVerification_Error_def
        strings_Contains_iff)
  obtain r1 h1 tr1 where e: "ensureKeyHandler env h = (r1, h1, tr1)"
    by (cases "ensureKeyHandler env h") auto
  note fe = ensureKeyHandler_frame [OF e]
  have s1: "EvWaitForUpdate \<notin> set tr1" "countRefresh tr1 = 0" "verifications tr1 = []"
    using fe setup_no_wait setup_no_refresh by auto
  have main: "(EvWaitForUpdate \<in> set tr \<longleftrightarrow>
            disableKeyID h
            \<and> (\<exists>key0 alg0 rest. verifications tr = EvVerify key0 alg0 # rest
                 \<and> getAndValidateTokenFromString env ts key0 alg0 = Inl errSignatureVerification))
       \<and> countRefresh tr \<le> 1"
  proof (cases r1)
    case (Some err)
    with e run have "tr = tr1" by (auto simp: ParseToken_def)
    with s1 show ?thesis by simp
  next
    case None
    obtain r2 h2 tr2 where l: "lookupKeyAndAlgorithm env h1 ts = (r2, h2, tr2)"
      by (cases "lookupKeyAndAlgorithm env h1 ts") auto
    note fl = lookupKeyAndAlgorithm_frame [OF l]
    have s2: "EvWaitForUpdate \<notin> set tr2" "countRefresh tr2 = 0" "verifications tr2 = []"
      using fl lookup_no_refresh [OF l] by auto
    show ?thesis
    proof (cases r2)
      case (Inl err)
      with e l None run have "tr = tr1 @ tr2" by (auto simp: ParseToken_def)
      with s1 s2 show ?thesis by (simp add: countRefresh_append verifications_append)
    next
      case (Inr ka)
      obtain key1 alg1 where ka: "ka = (key1, alg1)" by (cases ka) auto
      obtain r3 h3 tr3 where v: "verifyToken env h2 ts key1 alg1 = (r3, h3, tr3)"
        by (cases "verifyToken env h2 ts key1 alg1") auto
      have kh2: "keyHandler h2 \<noteq> None" using lookup_success l Inr ka by fastforce
      note vt = verifyToken_trace [OF v kh2]
      have dis: "disableKeyID h2 = disableKeyID h" using fe fl by (simp add: samePolicy_def)
      from e l None Inr ka v run have tr: "tr = tr1 @ tr2 @ tr3"
        by (auto simp: ParseToken_def split: sum.splits)
      from vt obtain rest where rest: "verifications tr3 = EvVerify key1 alg1 # rest" by blast
      have ver: "verifications tr = EvVerify key1 alg1 # rest"
        using tr s1 s2 rest by (simp add: verifications_append)
      have cnt: "countRefresh tr \<le> 1"
        using tr s1 s2 vt by (simp add: countRefresh_append)
      have "EvWaitForUpdate \<in> set tr \<longleftrightarrow> EvWaitForUpdate \<in> set tr3"
        using tr s1 s2 by simp
      with vt dis ver cnt show ?thesis by auto
    qed
  qed
  from main show "EvWaitForUpdate \<in> set tr \<longleftrightarrow>
            disableKeyID h
            \<and> (\<exists>key0 alg0 rest. verifications tr = EvVerify key0 alg0 # rest
                 \<and> getAndValidateTokenFromString env ts key0 alg0 = Inl errSignatureVerification)"
    by blast
  from main show "countRefresh tr \<le> 1" by blast
qed

lemma checkPolicy_samePolicy:
  "samePolicy h h' \<Longrightarrow> checkPolicy env h' tok = checkPolicy env h tok"
  by (simp add: checkPolicy_def samePolicy_def)

lemma ParseToken_after_lookup:
  assumes reach1: "ensureKeyHandler env h = (None, h1, tr1)"
    and reach2: "lookupKeyAndAlgorithm env h1 ts = (Inr (key0, alg0), h2, tr2)"
    and run: "ParseToken env h ts = (res, h', tr)"
  shows "case getAndValidateTokenFromString env ts key0 alg0 of
           Inr tok \<Rightarrow>
             res = checkPolicy env h tok \<and> h' = h2 \<and> tr = tr1 @ tr2 @ [EvVerify key0 alg0]
         | Inl err \<Rightarrow>
             if disableKeyID h \<and> err = errSignatureVerification then
               (\<exists>kh. keyHandler h2 = Some kh
                  \<and> (case waitForUpdateKeySetAndGetKey env kh of
                       (Inl err2, kh') \<Rightarrow>
                         res = Inl err2 \<and> h' = h2\<lparr>keyHandler := Some kh'\<rparr>
                         \<and> tr = tr1 @ tr2 @ [EvVerify key0 alg0, EvWaitForUpdate]
                     | (Inr updatedKey, kh') \<Rightarrow>
                         h' = h2\<lparr>keyHandler := Some kh'\<rparr>
                         \<and> (\<exists>alg2.
                              tr = tr1 @ tr2 @ [EvVerify key0 alg0, EvWaitForUpdate,
                                                EvVerify updatedKey alg2]
                              \<and> (case getAndValidateTokenFromString env ts updatedKey alg2 of
                                   Inl err3 \<Rightarrow> res = Inl err3
                                 | Inr tok \<Rightarrow> res = checkPolicy env h tok))))
             else res = Inl err \<and> h' = h2 \<and> tr = tr1 @ tr2 @ [EvVerify key0 alg0]"
proof -
  have f1: "samePolicy h h1" using ensureKeyHandler_frame [OF reach1] by auto
  have f2: "samePolicy h1 h2" using lookupKeyAndAlgorithm_frame [OF reach2] by auto
  have same: "samePolicy h h2" using f1 f2 by (rule samePolicy_trans)
  have dis: "disableKeyID h2 = disableKeyID h" using same by (simp add: samePolicy_def)
  obtain kh where kh: "keyHandler h2 = Some kh"
    and alg: "getSignatureAlgorithm (jwa_Accept env) (KeyType key0) (Algorithm key0)
              (fallbackSignatureAlgorithm h2) = Inr alg0"
    using lookup_success [OF reach2] by blast
  note p = ParseToken_reaching [OF reach1 reach2]
  show ?thesis
  proof (cases "getAndValidateTokenFromString env ts key0 alg0")
    case (Inr tok)
    have "verifyToken env h2 ts key0 alg0 = (Inr tok, h2, [EvVerify key0 alg0])"
      using Inr by (rule verifyToken_ok)
    with p run have "res = checkPolicy env h2 tok" "h' = h2" "tr = tr1 @ tr2 @ [EvVerify key0 alg0]"
      by auto
    with Inr checkPolicy_samePolicy [OF same] show ?thesis by simp
  next
    case (Inl err)
    show ?thesis
    proof (cases "disableKeyID h \<and> err = errSignatureVerification")
      case False
      then have "\<not> (disableKeyID h2 \<and> err = errSignatureVerification)" using dis by simp
      from verifyToken_terminal [OF Inl this]
      have "verifyToken env h2 ts key0 alg0 = (Inl err, h2, [EvVerify key0 alg0])" .
      with p run have "res = Inl err" "h' = h2" "tr = tr1 @ tr2 @ [EvVerify key0 alg0]"
        by auto
      with Inl False show ?thesis by auto
    next
      case True
      then have d2: "disableKeyID h2" and e: "err = errSignatureVerification" using dis by auto
      have fails: "getAndValidateTokenFromString env ts key0 alg0 = Inl errSignatureVerification"
        using Inl e by simp
      note v = verifyToken_refresh [OF fails d2 kh alg]
      obtain r kh' where w: "waitForUpdateKeySetAndGetKey env kh = (r, kh')"
        by (cases "waitForUpdateKeySetAndGetKey env kh") auto
      have inner: "case waitForUpdateKeySetAndGetKey env kh of
                       (Inl err2, kh') \<Rightarrow>
                         res = Inl err2 \<and> h' = h2\<lparr>keyHandler := Some kh'\<rparr>
                         \<and> tr = tr1 @ tr2 @ [EvVerify key0 alg0, EvWaitForUpdate]
                     | (Inr updatedKey, kh') \<Rightarrow>
                         h' = h2\<lparr>keyHandler := Some kh'\<rparr>
                         \<and> (\<exists>alg2.
                              tr = tr1 @ tr2 @ [EvVerify key0 alg0, EvWaitForUpdate,
                                                EvVerify updatedKey alg2]
                              \<and> (case getAndValidateTokenFromString env ts updatedKey alg2 of
                                   Inl err3 \<Rightarrow> res = Inl err3
                                 | Inr tok \<Rightarrow> res = checkPolicy env h tok))"
      proof (cases r)
        case (Inl err2)
        with v w p run show ?thesis by auto
      next
        case (Inr updatedKey)
        have same': "samePolicy h (h2\<lparr>keyHandler := Some kh'\<rparr>)"
          using same by (simp add: samePolicy_def)
        have hh: "h' = h2\<lparr>keyHandler := Some kh'\<rparr>"
          and tr: "tr = tr1 @ tr2 @ [EvVerify key0 alg0, EvWaitForUpdate, EvVerify updatedKey alg0]"
          using v w p run Inr
          by (cases "getAndValidateTokenFromString env ts updatedKey alg0"; auto)+
        have res: "case getAndValidateTokenFromString env ts updatedKey alg0 of
                     Inl err3 \<Rightarrow> res = Inl err3
                   | Inr tok \<Rightarrow> res = checkPolicy env h tok"
        proof (cases "getAndValidateTokenFromString env ts updatedKey alg0")
          case (Inl err3)
          with v w p run Inr show ?thesis by auto
        next
          case (Inr tok)
          with v w p run \<open>r = Inr updatedKey\<close>
          have "res = checkPolicy env (h2\<lparr>keyHandler := Some kh'\<rparr>) tok" by auto
          with checkPolicy_samePolicy [OF same'] Inr show ?thesis by simp
        qed
        from tr res have "\<exists>alg2.
                              tr = tr1 @ tr2 @ [EvVerify key0 alg0, EvWaitForUpdate,
                                                EvVerify updatedKey alg2]
                              \<and> (case getAndValidateTokenFromString env ts updatedKey alg2 of
                                   Inl err3 \<Rightarrow> res = Inl err3
                                 | Inr tok \<Rightarrow> res = checkPolicy env h tok)" by blast
        with hh w Inr show ?thesis by simp
      qed
      with Inl True kh show ?thesis by simp
    qed
  qed
qed

lemma ParseToken_before_verify:
  assumes run: "ParseToken env h ts = (res, h', tr)"
  shows "(\<forall>err h1 tr1. ensureKeyHandler env h = (Some err, h1, tr1) \<longrightarrow>
            res = Inl err \<and> h' = h1 \<and> tr = tr1)
       \<and> (\<forall>h1 tr1 err h2 tr2. ensureKeyHandler env h = (None, h1, tr1)
            \<and> lookupKeyAndAlgorithm env h1 ts = (Inl err, h2, tr2) \<longrightarrow>
            res = Inl err \<and> h' = h2 \<and> tr = tr1 @ tr2)"
  using run by (auto simp: ParseToken_def)

lemmas demo_more = demo_simps demoKeyC_def checkPolicy_def isTokenExpirationValid_def
  isTokenIssuerValid_def isTokenAudienceValid_def demoToken_def getCtyValues_spec_def
  isCtyValueValid_spec_def time_Second_def

lemma demo_run_C:
  "ParseToken demoEnv (demoHandler\<lparr>keyHandler := Some [demoKeyC, demoKeyB]\<rparr>) ''tokenB'' =
     (Inr demoToken, demoHandler\<lparr>keyHandler := Some [demoKeyB]\<rparr>,
      [EvGetKey [], EvVerify demoKeyC ''ES256'', EvWaitForUpdate, EvVerify demoKeyB ''ES256''])"
  by (simp add: demo_more jwa_RSA_def jwa_EC_def jwa_ES256_def)

lemma demo_run_single:
  "ParseToken demoEnv (demoHandler\<lparr>keyHandler := Some [demoKeyA]\<rparr>) ''tokenB'' =
     (Inl (LibError ''unable to fetch keys''), demoHandler\<lparr>keyHandler := Some [demoKeyA]\<rparr>,
      [EvGetKey [], EvVerify demoKeyA ''RS256'', EvWaitForUpdate])"
  by (simp add: demo_more)

text \<open>
  C10. \<open>getAndValidateTokenFromString\<close> returns the sentinel exactly when the parser's
  error message contains \<open>failed to verify signature\<close>, and the parser's error with its
  message otherwise. A run of \<open>ParseToken\<close> that reaches the verification does the refresh
  and the second verification exactly when \<open>disableKeyID\<close> is set and the first
  verification returned the sentinel: the handler then holds the key manager as
  \<open>waitForUpdateKeySetAndGetKey\<close> left it, and the result is the error of that call, or
  the error of the second verification, made with the key the call returned, or the result
  of the gates on the token of the second verification. With any other error of the first
  verification, and without \<open>disableKeyID\<close>, the error is the result, the handler is as
  the key lookup left it and there is no other call; a run that ends before the
  verification makes none either. No run refreshes more than once.
\<close>

theorem sentinel_triggers_refresh:
  assumes run: "ParseToken env h ts = (res, h', tr)"
  shows "(getAndValidateTokenFromString env ts key alg = Inl errSignatureVerification \<longleftrightarrow>
           (\<exists>msg a b. jwt_ParseString env ts alg key = Inl msg
              \<and> msg = a @ ''failed to verify signature'' @ b))
       \<and> (\<forall>msg. jwt_ParseString env ts alg key = Inl msg \<longrightarrow>
             getAndValidateTokenFromString env ts key alg =
               (if \<exists>a b. msg = a @ ''failed to verify signature'' @ b
                then Inl errSignatureVerification else Inl (LibError msg)))
       \<and> (EvWaitForUpdate \<in> set tr \<longleftrightarrow>
            disableKeyID h
            \<and> (\<exists>key0 alg0 rest. verifications tr = EvVerify key0 alg0 # rest
                 \<and> getAndValidateTokenFromString env ts key0 alg0 = Inl errSignatureVerification))
       \<and> countRefresh tr \<le> 1
       \<and> (\<forall>h1 tr1 key0 alg0 h2 tr2.
            ensureKeyHandler env h = (None, h1, tr1)
            \<and> lookupKeyAndAlgorithm env h1 ts = (Inr (key0, alg0), h2, tr2) \<longrightarrow>
            (case getAndValidateTokenFromString env ts key0 alg0 of
               Inr tok \<Rightarrow>
                 res = checkPolicy env h tok \<and> h' = h2 \<and> tr = tr1 @ tr2 @ [EvVerify key0 alg0]
             | Inl err \<Rightarrow>
                 if disableKeyID h \<and> err = errSignatureVerification then
                   (\<exists>kh. keyHandler h2 = Some kh
                      \<and> (case waitForUpdateKeySetAndGetKey env kh of
                           (Inl err2, kh') \<Rightarrow>
                             res = Inl err2 \<and> h' = h2\<lparr>keyHandler := Some kh'\<rparr>
                             \<and> tr = tr1 @ tr2 @ [EvVerify key0 alg0, EvWaitForUpdate]
                         | (Inr updatedKey, kh') \<Rightarrow>
                             h' = h2\<lparr>keyHandler := Some kh'\<rparr>
                             \<and> (\<exists>alg2.
                                  tr = tr1 @ tr2 @ [EvVerify key0 alg0, EvWaitForUpdate,
                                                    EvVerify updatedKey alg2]
                                  \<and> (case getAndValidateTokenFromString env ts updatedKey
                                             alg2 of
                                       Inl err3 \<Rightarrow> res = Inl err3
                                     | Inr tok \<Rightarrow> res = checkPolicy env h tok))))
                 else res = Inl err \<and> h' = h2 \<and> tr = tr1 @ tr2 @ [EvVerify key0 alg0]))
       \<and> (\<forall>err h1 tr1. ensureKeyHandler env h = (Some err, h1, tr1) \<longrightarrow>
            res = Inl err \<and> h' = h1 \<and> tr = tr1)
       \<and> (\<forall>h1 tr1 err h2 tr2. ensureKeyHandler env h = (None, h1, tr1)
            \<and> lookupKeyAndAlgorithm env h1 ts = (Inl err, h2, tr2) \<longrightarrow>
            res = Inl err \<and> h' = h2 \<and> tr = tr1 @ tr2)"
proof -
  note m = ParseToken_refresh_marker [OF run, of key alg]
  have five: "\<forall>h1 tr1 key0 alg0 h2 tr2.
            ensureKeyHandler env h = (None, h1, tr1)
            \<and> lookupKeyAndAlgorithm env h1 ts = (Inr (key0, alg0), h2, tr2) \<longrightarrow>
            (case getAndValidateTokenFromString env ts key0 alg0 of
               Inr tok \<Rightarrow>
                 res = checkPolicy env h tok \<and> h' = h2 \<and> tr = tr1 @ tr2 @ [EvVerify key0 alg0]
             | Inl err \<Rightarrow>
                 if disableKeyID h \<and> err = errSignatureVerification then
                   (\<exists>kh. keyHandler h2 = Some kh
                      \<and> (case waitForUpdateKeySetAndGetKey env kh of
                           (Inl err2, kh') \<Rightarrow>
                             res = Inl err2 \<and> h' = h2\<lparr>keyHandler := Some kh'\<rparr>
                             \<and> tr = tr1 @ tr2 @ [EvVerify key0 alg0, EvWaitForUpdate]
                         | (Inr updatedKey, kh') \<Rightarrow>
                             h' = h2\<lparr>keyHandler := Some kh'\<rparr>
                             \<and> (\<exists>alg2.
                                  tr = tr1 @ tr2 @ [EvVerify key0 alg0, EvWaitForUpdate,
                                                    EvVerify updatedKey alg2]
                                  \<and> (case getAndValidateTokenFromString env ts updatedKey
                                             alg2 of
                                       Inl err3 \<Rightarrow> res = Inl err3
                                     | Inr tok \<Rightarrow> res = checkPolicy env h tok))))
                 else res = Inl err \<and> h' = h2 \<and> tr = tr1 @ tr2 @ [EvVerify key0 alg0])"
    using ParseToken_after_lookup [OF _ _ run] by blast
  note six = ParseToken_before_verify [OF run]
  from m five six show ?thesis by (intro conjI) blast+
qed

theorem sentinel_triggers_refresh_witness:
  "jwt_ParseString demoEnv ''tokenB'' ''RS256'' demoKeyA
     = Inl ''failed to verify jws signature: failed to verify signature''
   \<and> getAndValidateTokenFromString demoEnv ''tokenB'' demoKeyA ''RS256''
       = Inl errSignatureVerification
   \<and> jwt_ParseString demoEnv ''garbage'' ''RS256'' demoKeyA
       = Inl ''invalid compact serialization format''
   \<and> getAndValidateTokenFromString demoEnv ''garbage'' demoKeyA ''RS256''
       = Inl (LibError ''invalid compact serialization format'')
   \<and> disableKeyID (demoHandler\<lparr>keyHandler := Some [demoKeyC, demoKeyB]\<rparr>)
   \<and> getAndValidateTokenFromString demoEnv ''tokenB'' demoKeyC ''ES256''
       = Inl errSignatureVerification
   \<and> waitForUpdateKeySetAndGetKey demoEnv [demoKeyC, demoKeyB] = (Inr demoKeyB, [demoKeyB])
   \<and> getAndValidateTokenFromString demoEnv ''tokenB'' demoKeyB ''ES256'' = Inr demoToken
   \<and> ParseToken demoEnv (demoHandler\<lparr>keyHandler := Some [demoKeyC, demoKeyB]\<rparr>) ''tokenB'' =
       (Inr demoToken, demoHandler\<lparr>keyHandler := Some [demoKeyB]\<rparr>,
        [EvGetKey [], EvVerify demoKeyC ''ES256'', EvWaitForUpdate, EvVerify demoKeyB ''ES256''])
   \<and> waitForUpdateKeySetAndGetKey demoEnv [demoKeyA]
       = (Inl (LibError ''unable to fetch keys''), [demoKeyA])
   \<and> ParseToken demoEnv (demoHandler\<lparr>keyHandler := Some [demoKeyA]\<rparr>) ''tokenB'' =
       (Inl (LibError ''unable to fetch keys''), demoHandler\<lparr>keyHandler := Some [demoKeyA]\<rparr>,
        [EvGetKey [], EvVerify demoKeyA ''RS256'', EvWaitForUpdate])
   \<and> ParseToken demoEnv demoHandler ''garbage'' =
       (Inl (LibError ''invalid compact serialization format''), demoHandler,
        [EvGetKey [], EvVerify demoKeyA ''RS256''])
   \<and> EvWaitForUpdate \<notin> set (snd (snd (ParseToken demoEnv demoHandler ''garbage'')))
   \<and> \<not> disableKeyID (demoHandler\<lparr>disableKeyID := False\<rparr>)
   \<and> ParseToken demoEnv (demoHandler\<lparr>disableKeyID := False\<rparr>) ''tokenB'' =
       (Inl errSignatureVerification, demoHandler\<lparr>disableKeyID := False\<rparr>,
        [EvGetKey ''kid-b'', EvVerify demoKeyA ''RS256''])
   \<and> EvWaitForUpdate \<notin> set (snd (snd (ParseToken demoEnv
          (demoHandler\<lparr>disableKeyID := False\<rparr>) ''tokenB'')))"
proof -
  note c = sentinel_triggers_refresh [OF demo_run_C, where key = demoKeyA and alg = "''RS256''"]
  note s = sentinel_triggers_refresh [OF demo_run_single, where key = demoKeyA
      and alg = "''RS256''"]
  note g = sentinel_triggers_refresh [OF demo_run_garbage, where key = demoKeyA
      and alg = "''RS256''"]
  note k = sentinel_triggers_refresh [OF demo_run_keyed, where key = demoKeyA
      and alg = "''RS256''"]
  have marker_g: "EvWaitForUpdate \<notin> set (snd (snd (ParseToken demoEnv demoHandler ''garbage'')))"
    using g demo_run_garbage by (simp add: verifications_def demo_more)
  have marker_k: "EvWaitForUpdate \<notin> set (snd (snd (ParseToken demoEnv
          (demoHandler\<lparr>disableKeyID := False\<rparr>) ''tokenB'')))"
    using k demo_run_keyed by (simp add: demoHandler_def)
  from c s demo_run_C demo_run_single demo_run_garbage demo_run_keyed marker_g marker_k
  show ?thesis
    by (simp add: demo_more)
qed

subsection \<open>The handler after ParseToken\<close>



subsection \<open>The expiration gate\<close>

lemma NewHandler_drift:
  assumes "NewHandler env opts = Inr h"
  shows "allowedTokenDrift h =
           (if AllowedTokenDrift opts = 0 then 10 * time_Second else AllowedTokenDrift opts)"
proof -
  have pres: "\<And>h6 r h7 tr. loadJwks env h6 = (r, h7, tr) \<Longrightarrow> allowedTokenDrift h7 = allowedTokenDrift h6"
    using loadJwks_frame by (fastforce simp: samePolicy_def)
  show ?thesis
    using assms
    by (auto simp: NewHandler_def Let_def dest!: pres
        split: if_splits sum.splits option.splits prod.splits)
qed

text \<open>
  C7. The expiration gate rejects exactly when \<open>exp + allowedTokenDrift \<le> now\<close>, the
  instant of the boundary included, and accepts exactly when
  \<open>exp + allowedTokenDrift > now\<close>; the policy check of \<open>ParseToken\<close> returns the
  expiration error in exactly that case. A handler made by \<open>NewHandler\<close> has a drift of
  ten seconds when the options give zero, and the drift of the options otherwise.
\<close>

theorem expiration_gate:
  "(\<not> isTokenExpirationValid exp drift now \<longleftrightarrow> exp + drift \<le> now)
   \<and> (isTokenExpirationValid exp drift now \<longleftrightarrow> exp + drift > now)
   \<and> (checkPolicy env h tok = Inl (TokenHasExpired (expiration tok)) \<longleftrightarrow>
        expiration tok + allowedTokenDrift h \<le> time_Now env)
   \<and> (NewHandler env opts = Inr h' \<longrightarrow>
        allowedTokenDrift h' =
          (if AllowedTokenDrift opts = 0 then 10 * time_Second else AllowedTokenDrift opts))"
proof (intro conjI)
  show "\<not> isTokenExpirationValid exp drift now \<longleftrightarrow> exp + drift \<le> now"
    by (auto simp: isTokenExpirationValid_def)
  show "isTokenExpirationValid exp drift now \<longleftrightarrow> exp + drift > now"
    by (simp add: isTokenExpirationValid_def)
  show "checkPolicy env h tok = Inl (TokenHasExpired (expiration tok)) \<longleftrightarrow>
        expiration tok + allowedTokenDrift h \<le> time_Now env"
    by (auto simp: checkPolicy_def isTokenExpirationValid_def split: option.splits sum.splits)
  show "NewHandler env opts = Inr h' \<longrightarrow>
        allowedTokenDrift h' =
          (if AllowedTokenDrift opts = 0 then 10 * time_Second else AllowedTokenDrift opts)"
    using NewHandler_drift [of env opts h'] by blast
qed

theorem expiration_gate_witness:
  "\<not> isTokenExpirationValid (990 * time_Second) (10 * time_Second) (1000 * time_Second)
   \<and> isTokenExpirationValid (990 * time_Second + 1) (10 * time_Second) (1000 * time_Second)
   \<and> checkPolicy demoEnv demoHandler (demoToken\<lparr>expiration := 990 * time_Second\<rparr>)
        = Inl (TokenHasExpired (990 * time_Second))
   \<and> AllowedTokenDrift demoOptions = 0
   \<and> (\<exists>h'. NewHandler demoEnv demoOptions = Inr h' \<and> allowedTokenDrift h' = 10 * time_Second)"
  using expiration_gate [where exp = "990 * time_Second" and drift = "10 * time_Second"
      and now = "1000 * time_Second" and env = demoEnv and h = demoHandler
      and tok = "demoToken\<lparr>expiration := 990 * time_Second\<rparr>" and opts = demoOptions
      and h' = "demoHandler\<lparr>discoveryUri := ''https://issuer/.well-known/openid-configuration''\<rparr>"]
    expiration_gate [where exp = "990 * time_Second + 1" and drift = "10 * time_Second"
      and now = "1000 * time_Second" and env = demoEnv and h = demoHandler
      and tok = "demoToken\<lparr>expiration := 990 * time_Second\<rparr>" and opts = demoOptions
      and h' = "demoHandler\<lparr>discoveryUri := ''https://issuer/.well-known/openid-configuration''\<rparr>"]
    demo_NewHandler
  by (simp add: demoOptions_def demoHandler_def demoEnv_def time_Second_def)

subsection \<open>The required-claims check\<close>

lemma claims_ok_iff:
  "isRequiredClaimsValid gcv icv req tok = None \<longleftrightarrow> list_all (claimOk gcv icv tok) req"
proof (induction req)
  case Nil
  show ?case by simp
next
  case (Cons entry req)
  obtain k v where kv: "entry = (k, v)" by (cases entry) auto
  show ?case using Cons.IH
    by (auto simp: kv claimOk_def claimContained_def split: option.splits sum.splits prod.splits)
qed

lemma claims_skip_ok:
  assumes "list_all (claimOk gcv icv tok) pre"
  shows "isRequiredClaimsValid gcv icv (pre @ rest) tok = isRequiredClaimsValid gcv icv rest tok"
  using assms
proof (induction pre)
  case Nil
  show ?case by simp
next
  case (Cons entry pre)
  obtain k v where kv: "entry = (k, v)" by (cases entry) auto
  from Cons.prems have ok: "claimOk gcv icv tok (k, v)" and rest: "list_all (claimOk gcv icv tok) pre"
    by (simp_all add: kv)
  from ok obtain tv r ob where "tok k = Some tv" "gcv v tv = Inr (r, ob)" "icv r ob = None"
    by (auto simp: claimOk_def claimContained_def split: option.splits sum.splits prod.splits)
  then show ?case using Cons.IH [OF rest] by (simp add: kv)
qed

lemma contained_spec: "claimContained getCtyValues_spec isCtyValueValid_spec v tv \<longleftrightarrow> ctyMatch v tv"
  by (simp add: claimContained_def getCtyValues_spec_def isCtyValueValid_spec_def)

text \<open>
  C8 (as the source has it). For every order in which the required entries are visited and
  every observed mapping: the check fails whenever some required key is absent from the
  observed mapping, and it succeeds exactly when every required key is in the observed
  mapping with a value that contains the required one. The error is that of the first
  entry, in the order of the visit, that fails: the error that names the key when the key
  is absent, the error that names the key when its value does not contain the required one,
  and the error of the conversion, as it is, when the conversion fails.
\<close>

theorem required_claims_first_failure:
  "((\<exists>k \<in> fst ` set req. tok k = None) \<longrightarrow> isRequiredClaimsValid gcv icv req tok \<noteq> None)
   \<and> (isRequiredClaimsValid gcv icv req tok = None \<longleftrightarrow>
        (\<forall>(k, v) \<in> set req. \<exists>tv. tok k = Some tv \<and> claimContained gcv icv v tv))
   \<and> (list_all (claimOk gcv icv tok) pre \<and> tok k = None \<longrightarrow>
        isRequiredClaimsValid gcv icv (pre @ (k, v) # post) tok
          = Some (TokenDoesNotHaveTheClaim k))
   \<and> (list_all (claimOk gcv icv tok) pre \<and> tok k = Some tv \<and> gcv v tv = Inr (r, ob)
        \<and> icv r ob = Some err \<longrightarrow>
        isRequiredClaimsValid gcv icv (pre @ (k, v) # post) tok = Some (ClaimNotValid k err))
   \<and> (list_all (claimOk gcv icv tok) pre \<and> tok k = Some tv \<and> gcv v tv = Inl err \<longrightarrow>
        isRequiredClaimsValid gcv icv (pre @ (k, v) # post) tok = Some err)"
proof (intro conjI impI)
  assume "\<exists>k \<in> fst ` set req. tok k = None"
  then obtain k v where "(k, v) \<in> set req" "tok k = None" by auto
  then have "\<not> claimOk gcv icv tok (k, v)" by (simp add: claimOk_def)
  with \<open>(k, v) \<in> set req\<close> have "\<not> list_all (claimOk gcv icv tok) req"
    unfolding list_all_iff by blast
  then show "isRequiredClaimsValid gcv icv req tok \<noteq> None" by (simp add: claims_ok_iff)
next
  show "isRequiredClaimsValid gcv icv req tok = None \<longleftrightarrow>
        (\<forall>(k, v) \<in> set req. \<exists>tv. tok k = Some tv \<and> claimContained gcv icv v tv)"
    by (auto simp: claims_ok_iff list_all_iff claimOk_def split: option.splits)
next
  assume "list_all (claimOk gcv icv tok) pre \<and> tok k = None"
  then show "isRequiredClaimsValid gcv icv (pre @ (k, v) # post) tok
          = Some (TokenDoesNotHaveTheClaim k)"
    by (simp add: claims_skip_ok)
next
  assume "list_all (claimOk gcv icv tok) pre \<and> tok k = Some tv \<and> gcv v tv = Inr (r, ob)
        \<and> icv r ob = Some err"
  then show "isRequiredClaimsValid gcv icv (pre @ (k, v) # post) tok = Some (ClaimNotValid k err)"
    by (simp add: claims_skip_ok)
next
  assume "list_all (claimOk gcv icv tok) pre \<and> tok k = Some tv \<and> gcv v tv = Inl err"
  then show "isRequiredClaimsValid gcv icv (pre @ (k, v) # post) tok = Some err"
    by (simp add: claims_skip_ok)
qed

theorem required_claims_first_failure_witness:
  "isRequiredClaimsValid getCtyValues_spec isCtyValueValid_spec
      [(''azp'', VString ''c'')] (map_of [(''azp'', VString ''c''), (''scope'', VString ''x'')])
     = None
   \<and> isRequiredClaimsValid getCtyValues_spec isCtyValueValid_spec
      ([(''azp'', VString ''c'')] @ (''tid'', VString ''t'') # [(''aud'', VString ''a'')])
      (map_of [(''azp'', VString ''c''), (''scope'', VString ''x'')])
     = Some (TokenDoesNotHaveTheClaim ''tid'')
   \<and> isRequiredClaimsValid getCtyValues_spec isCtyValueValid_spec
      ([] @ (''azp'', VString ''d'') # [(''tid'', VString ''t'')])
      (map_of [(''azp'', VString ''c''), (''scope'', VString ''x'')])
     = Some (ClaimNotValid ''azp'' (LibError ''value mismatch''))
   \<and> isRequiredClaimsValid getCtyValues_nonNull isCtyValueValid_spec
      ([] @ (''azp'', VString ''c'') # [(''tid'', VString ''t'')])
      (map_of [(''azp'', VNull)])
     = Some (LibError ''input is nil'')"
  using required_claims_first_failure [where gcv = getCtyValues_spec
      and icv = isCtyValueValid_spec and req = "[(''azp'', VString ''c'')]"
      and tok = "map_of [(''azp'', VString ''c''), (''scope'', VString ''x'')]"
      and pre = "[(''azp'', VString ''c'')]" and k = "''tid''" and v = "VString ''t''"
      and post = "[(''aud'', VString ''a'')]" and tv = "VString ''c''" and r = "VString ''d''"
      and ob = "VString ''c''" and err = "LibError ''value mismatch''"]
    required_claims_first_failure [where gcv = getCtyValues_spec
      and icv = isCtyValueValid_spec and req = "[(''azp'', VString ''c'')]"
      and tok = "map_of [(''azp'', VString ''c''), (''scope'', VString ''x'')]"
      and pre = "[]" and k = "''azp''" and v = "VString ''d''"
      and post = "[(''tid'', VString ''t'')]" and tv = "VString ''c''" and r = "VString ''d''"
      and ob = "VString ''c''" and err = "LibError ''value mismatch''"]
    required_claims_first_failure [where gcv = getCtyValues_nonNull
      and icv = isCtyValueValid_spec and req = "[(''azp'', VString ''c'')]"
      and tok = "map_of [(''azp'', VNull)]"
      and pre = "[]" and k = "''azp''" and v = "VString ''c''"
      and post = "[(''tid'', VString ''t'')]" and tv = "VNull" and r = "VString ''d''"
      and ob = "VString ''c''" and err = "LibError ''input is nil''"]
  by (simp add: claimOk_def claimContained_def getCtyValues_spec_def isCtyValueValid_spec_def
      getCtyValues_nonNull_def)

text \<open>
  C8 as it is stated does not hold: with the required claims \<open>a = 1\<close> and \<open>b = 2\<close>,
  visited in this order, and the observed claims \<open>a = 5\<close>, the key \<open>b\<close> is absent, and
  the error is the one of \<open>a\<close>, whose value does not match; no error names an absent key.
\<close>

theorem required_claims_counterexample:
  "map_of [(''a'', VNumber 5)] ''b'' = None
   \<and> isRequiredClaimsValid getCtyValues_spec isCtyValueValid_spec
        [(''a'', VNumber 1), (''b'', VNumber 2)] (map_of [(''a'', VNumber 5)])
       = Some (ClaimNotValid ''a'' (LibError ''value mismatch''))
   \<and> isRequiredClaimsValid getCtyValues_spec isCtyValueValid_spec
        [(''a'', VNumber 1), (''b'', VNumber 2)] (map_of [(''a'', VNumber 5)])
       \<noteq> Some (TokenDoesNotHaveTheClaim ''b'')"
  by (simp add: getCtyValues_spec_def isCtyValueValid_spec_def)

subsection \<open>The key manager of the spec\<close>

lemma arrive_eq:
  "arrive cs m = m\<lparr>pending := pending m @ map (\<lambda>c. (c, updateCount m)) cs\<rparr>"
proof (induction cs arbitrary: m)
  case Nil
  show ?case by simp
next
  case (Cons c cs)
  show ?case by (simp add: Cons.IH enqueue_def)
qed

lemma arrive_callers: "fst ` set (pending (arrive cs m)) = fst ` set (pending m) \<union> set cs"
  by (simp add: arrive_eq image_Un image_image)

text \<open>
  C3. In the spec's model of the key manager: when \<open>N \<ge> 1\<close> callers of
  \<open>waitForUpdateKeySetAndGetKeySet\<close> have all arrived before the refresher starts, one
  round of the refresher, with one fetch that delivers a key set the mode accepts, serves
  them all: \<open>updateCount\<close> is one more than before, the fetched key set is installed, and
  the response of each of the \<open>N\<close> callers is that key set. The callers that arrive during
  the fetch are the only requests left; with none of them the refresher has nothing more
  to do, so there is exactly one refresh.
\<close>

theorem coalesced_refresh:
  assumes n: "length cs = N" "1 \<le> N"
    and ok: "\<not> (unkeyed m \<and> length ks \<noteq> 1)"
  shows "\<exists>m1. refresherStep (Inr ks) arrivals now (arrive cs m) = Some m1
          \<and> updateCount m1 = updateCount m + 1
          \<and> keySet m1 = ks
          \<and> (\<forall>c \<in> set cs. responses m1 c = Some (Inr ks))
          \<and> pending m1 = map (\<lambda>c. (c, updateCount m)) arrivals
          \<and> (arrivals = [] \<longrightarrow> refresherStep laterFetched laterArrivals laterNow m1 = None)"
proof -
  have ne: "pending (arrive cs m) \<noteq> []" using n by (cases cs) (auto simp: arrive_eq)
  have u: "updateKeySet (Inr ks) (gate (arrive cs m) now) (arrive cs m) =
             (Inr ks, (arrive cs m)\<lparr>keySet := ks, updateCount := Suc (updateCount m),
                                  lastRefreshAt := gate (arrive cs m) now\<rparr>)"
    using ok by (auto simp: updateKeySet_def arrive_eq)
  let ?m' = "(arrive cs m)\<lparr>keySet := ks, updateCount := Suc (updateCount m),
                 lastRefreshAt := gate (arrive cs m) now\<rparr>"
  let ?m1 = "?m'\<lparr>pending := map (\<lambda>c. (c, updateCount (arrive cs m))) arrivals,
                 responses := (\<lambda>c. if c \<in> fst ` set (pending (arrive cs m)) then Some (Inr ks)
                                     else responses ?m' c)\<rparr>"
  have step: "refresherStep (Inr ks) arrivals now (arrive cs m) = Some ?m1"
    using ne u by (simp add: refresherStep_def)
  have resp: "\<forall>c \<in> set cs. responses ?m1 c = Some (Inr ks)"
    using arrive_callers [of cs m] by auto
  have pend: "pending ?m1 = map (\<lambda>c. (c, updateCount m)) arrivals"
    by (simp add: arrive_eq)
  have idle: "arrivals = [] \<longrightarrow> refresherStep laterFetched laterArrivals laterNow ?m1 = None"
    by (simp add: refresherStep_def)
  from step resp pend idle show ?thesis by simp
qed

theorem coalesced_refresh_witness:
  "length [1, 2, 3 :: nat] = 3 \<and> (1::nat) \<le> 3
   \<and> (\<exists>m1. refresherStep (Inr [demoKeyB]) [] 5 (arrive [1, 2, 3] demoManager) = Some m1
          \<and> updateCount demoManager = 1 \<and> updateCount m1 = 2
          \<and> keySet m1 = [demoKeyB]
          \<and> responses m1 1 = Some (Inr [demoKeyB])
          \<and> responses m1 2 = Some (Inr [demoKeyB])
          \<and> responses m1 3 = Some (Inr [demoKeyB])
          \<and> pending m1 = []
          \<and> refresherStep (Inr [demoKeyA]) [] 6 m1 = None)"
  using coalesced_refresh [where cs = "[1, 2, 3]" and N = 3 and m = demoManager
      and ks = "[demoKeyB]" and arrivals = "[]" and now = 5 and laterFetched = "Inr [demoKeyA]"
      and laterArrivals = "[]" and laterNow = 6]
  by (auto simp: demoManager_def)

text \<open>
  C4. In the spec's model of the key manager, in the mode without key ids: a refresh whose
  fetch delivers more than one key returns an error, and the key set and \<open>updateCount\<close>
  stay as they were; this holds for \<open>updateKeySet\<close>, for a caller of
  \<open>waitForUpdateKeySetAndGetKeySet\<close>, and for every request of a batch of the refresher.
\<close>

theorem unkeyed_rejects_multiple_keys:
  assumes "unkeyed m" and "1 < length ks"
  shows "(\<exists>err. updateKeySet (Inr ks) now m = (Inl err, m))
       \<and> (\<exists>err m'. waitForUpdateKeySetAndGetKeySet (Inr ks) now caller m = (Inl err, m')
             \<and> keySet m' = keySet m \<and> updateCount m' = updateCount m)
       \<and> (pending m \<noteq> [] \<longrightarrow>
            (\<exists>err m'. refresherStep (Inr ks) arrivals now m = Some m'
               \<and> keySet m' = keySet m \<and> updateCount m' = updateCount m
               \<and> (\<forall>c \<in> fst ` set (pending m). responses m' c = Some (Inl err))))"
  using assms
  by (auto simp: updateKeySet_def waitForUpdateKeySetAndGetKeySet_def refresherStep_def
      enqueue_def)

theorem unkeyed_rejects_multiple_keys_witness:
  "unkeyed demoManager \<and> 1 < length [demoKeyA, demoKeyB]
   \<and> unkeyed (arrive [1, 2] demoManager)
   \<and> (\<exists>err. updateKeySet (Inr [demoKeyA, demoKeyB]) 5 demoManager = (Inl err, demoManager))
   \<and> (\<exists>err m'. waitForUpdateKeySetAndGetKeySet (Inr [demoKeyA, demoKeyB]) 5 7 demoManager
                  = (Inl err, m')
          \<and> keySet m' = [demoKeyA] \<and> updateCount m' = 1)
   \<and> pending (arrive [1, 2] demoManager) \<noteq> []
   \<and> (\<exists>err m'. refresherStep (Inr [demoKeyA, demoKeyB]) [] 5 (arrive [1, 2] demoManager)
                  = Some m'
          \<and> keySet m' = [demoKeyA] \<and> updateCount m' = 1
          \<and> responses m' 1 = Some (Inl err) \<and> responses m' 2 = Some (Inl err))"
  using unkeyed_rejects_multiple_keys [where m = demoManager and ks = "[demoKeyA, demoKeyB]"
      and now = 5 and caller = 7 and arrivals = "[]"]
    unkeyed_rejects_multiple_keys [where m = "arrive [1, 2] demoManager"
      and ks = "[demoKeyA, demoKeyB]" and now = 5 and caller = 7 and arrivals = "[]"]
  by (auto simp: demoManager_def enqueue_def)

end
